theory Spec2Isabelle
  imports Main
begin

section \<open>Errors and enumerations of the remote contracts\<close>

text \<open>
  The source reports failures as \<^verbatim>\<open>derrors.Error\<close> values: an error type and a message.
  Errors coming back from a remote service are converted with \<^verbatim>\<open>conversions.ToDerror\<close>
  and can be of any type.
\<close>

datatype ErrorType =
    Generic | Canceled | InvalidArgument | DeadlineExceeded | NotFound | AlreadyExists
  | PermissionDenied | ResourceExhausted | FailedPrecondition | Aborted | OutOfRange
  | Unimplemented | Internal | Unavailable | DataLoss | Unauthenticated

datatype derror = DError ErrorType string

fun errorType :: "derror \<Rightarrow> ErrorType" where
  "errorType (DError t m) = t"

definition NewInvalidArgumentError :: "string \<Rightarrow> derror" where
  "NewInvalidArgumentError msg = DError InvalidArgument msg"

definition NewFailedPreconditionError :: "string \<Rightarrow> derror" where
  "NewFailedPreconditionError msg = DError FailedPrecondition msg"

definition NewUnimplementedError :: "string \<Rightarrow> derror" where
  "NewUnimplementedError msg = DError Unimplemented msg"

text \<open>
  Enumerations of the wire schema. Only the members the source names are spelled out;
  any other member of \<^verbatim>\<open>Platform\<close> and \<^verbatim>\<open>ClusterType\<close> is kept by its number.
\<close>

datatype Platform = Platform_AZURE | Platform_other nat

datatype ClusterType = ClusterType_KUBERNETES | ClusterType_other nat

datatype ClusterState =
    ClusterState_PROVISIONING | ClusterState_PROVISIONED | ClusterState_INSTALL_IN_PROGRESS
  | ClusterState_INSTALLED | ClusterState_SCALING | ClusterState_FAILURE
  | ClusterState_UNINSTALLING | ClusterState_other nat

datatype ClusterStatus =
    ClusterStatus_ONLINE_CORDON | ClusterStatus_OFFLINE_CORDON | ClusterStatus_other nat

datatype OpStatus = OpStatus_FAILED | OpStatus_other nat

datatype ProvisionProgress = ProvisionProgress_ERROR | ProvisionProgress_other nat

section \<open>Request messages\<close>

text \<open>
  Each message is a record of the fields the source reads or writes. A Go pointer field
  that may be nil is an option. Field names carry the message's initials as a prefix,
  since record fields share one name space.
\<close>

type_synonym AzureCredentials = string

record AzureOptions =
  ResourceGroup :: string

type_synonym StaticIpAddresses = "string list"

record InstallRequest =
  ir_RequestId :: string
  ir_OrganizationId :: string
  ir_ClusterId :: string
  ir_ClusterType :: ClusterType
  ir_InstallBaseSystem :: bool
  ir_KubeConfigRaw :: string
  ir_Hostname :: string
  ir_Username :: string
  ir_PrivateKey :: string
  ir_Nodes :: "string list"
  ir_TargetPlatform :: Platform
  ir_StaticIpAddresses :: "StaticIpAddresses option"

record ProvisionClusterRequest =
  pr_RequestId :: string
  pr_OrganizationId :: string
  pr_ClusterId :: string
  pr_ClusterName :: string
  pr_KubernetesVersion :: string
  pr_IsManagementCluster :: bool
  pr_NumNodes :: int
  pr_NodeType :: string
  pr_TargetPlatform :: Platform
  pr_AzureCredentials :: "AzureCredentials option"
  pr_AzureOptions :: "AzureOptions option"

record ScaleClusterRequest =
  sr_RequestId :: string
  sr_OrganizationId :: string
  sr_ClusterId :: string
  sr_IsManagementCluster :: bool
  sr_TargetPlatform :: Platform
  sr_AzureCredentials :: "AzureCredentials option"
  sr_AzureOptions :: "AzureOptions option"

record UninstallClusterRequest =
  ur_RequestId :: string
  ur_OrganizationId :: string
  ur_ClusterId :: string
  ur_ClusterType :: ClusterType
  ur_KubeConfigRaw :: string
  ur_TargetPlatform :: Platform

record DecommissionClusterRequest =
  dr_RequestId :: string
  dr_OrganizationId :: string
  dr_ClusterId :: string
  dr_ClusterType :: ClusterType
  dr_IsManagementCluster :: bool
  dr_TargetPlatform :: Platform
  dr_AzureCredentials :: "AzureCredentials option"
  dr_AzureOptions :: "AzureOptions option"

record UpdateNodeRequest =
  unr_OrganizationId :: string
  unr_NodeId :: string
  unr_AddLabels :: bool
  unr_Labels :: "(string \<times> string) list"
  unr_UpdateStatus :: bool
  unr_Status :: nat
  unr_UpdateState :: bool
  unr_State :: nat

section \<open>Request validation (package entities)\<close>

definition emptyRequestId :: string where
  "emptyRequestId = ''request_id cannot be empty''"

definition emptyOrganizationId :: string where
  "emptyOrganizationId = ''organization_id cannot be empty''"

definition emptyClusterId :: string where
  "emptyClusterId = ''cluster_id cannot be empty''"

definition emptyNodeId :: string where
  "emptyNodeId = ''node_id cannot be empty''"

text \<open>
  A validator returns \<^verbatim>\<open>nil\<close> (here \<open>None\<close>) when the request is accepted and the
  error otherwise. The checks follow the source's order: the first that fires decides.
\<close>

definition ValidInstallRequest :: "InstallRequest \<Rightarrow> derror option" where
  "ValidInstallRequest installRequest =
    (if ir_OrganizationId installRequest = [] then
       Some (NewInvalidArgumentError emptyOrganizationId)
     else if ir_ClusterId installRequest \<noteq> [] then
       Some (NewInvalidArgumentError ''cluster_id must be nil, and set by this component'')
     else if ir_RequestId installRequest \<noteq> [] then
       Some (NewInvalidArgumentError ''request_id must be nil, and set by this component'')
     else
       let authFound = False in
       if ir_Username installRequest \<noteq> [] \<and> ir_PrivateKey installRequest = [] then
         Some (NewInvalidArgumentError ''expecting PrivateKey with Username'')
       else if ir_Username installRequest \<noteq> [] \<and> length (ir_Nodes installRequest) = 0 then
         Some (NewInvalidArgumentError ''expecting Nodes with Username'')
       else
         let authFound = (if ir_Username installRequest \<noteq> [] then True else authFound) in
         if ir_KubeConfigRaw installRequest \<noteq> [] \<and> ir_Username installRequest \<noteq> [] then
           Some (NewInvalidArgumentError ''expecting KubeConfigRaw without Username'')
         else if ir_KubeConfigRaw installRequest \<noteq> [] \<and> ir_PrivateKey installRequest \<noteq> [] then
           Some (NewInvalidArgumentError ''expecting KubeConfigRaw without PrivateKey'')
         else if ir_KubeConfigRaw installRequest \<noteq> [] \<and> length (ir_Nodes installRequest) > 0 then
           Some (NewInvalidArgumentError ''expecting KubeConfigRaw without Nodes'')
         else
           let authFound = (if ir_KubeConfigRaw installRequest \<noteq> [] then True else authFound) in
           if \<not> authFound then
             Some (NewInvalidArgumentError
                     ''expecting KubeConfigRaw or Username, PrivateKey and Nodes'')
           else None)"

definition ValidProvisionClusterRequest :: "ProvisionClusterRequest \<Rightarrow> derror option" where
  "ValidProvisionClusterRequest request =
    (if pr_RequestId request = [] then
       Some (NewInvalidArgumentError ''request_id must be set'')
     else if pr_IsManagementCluster request then
       Some (NewInvalidArgumentError ''you can only provision and install application clusters'')
     else if pr_OrganizationId request = [] then
       Some (NewInvalidArgumentError ''organization_id must be set'')
     else if pr_NumNodes request \<le> 0 then
       Some (NewInvalidArgumentError ''num_nodes must be positive'')
     else if pr_NodeType request = [] then
       Some (NewInvalidArgumentError ''node_type must be set'')
     else if pr_TargetPlatform request = Platform_AZURE \<and> pr_AzureCredentials request = None then
       Some (NewInvalidArgumentError ''azure_credentials must be set when type is Azure'')
     else if pr_TargetPlatform request = Platform_AZURE \<and> pr_AzureOptions request = None then
       Some (NewInvalidArgumentError ''azure_options must be set when type is Azure'')
     else None)"

text \<open>
  \<^verbatim>\<open>request.AzureOptions == nil || request.AzureOptions.ResourceGroup == ""\<close>: the
  resource group is read only when the options are present.
\<close>

definition azureOptionsMissing :: "AzureOptions option \<Rightarrow> bool" where
  "azureOptionsMissing opts =
    (case opts of None \<Rightarrow> True | Some o' \<Rightarrow> ResourceGroup o' = [])"

definition ValidScaleClusterRequest :: "ScaleClusterRequest \<Rightarrow> derror option" where
  "ValidScaleClusterRequest request =
    (if sr_RequestId request \<noteq> [] then
       Some (NewInvalidArgumentError ''request_id is set by infrastructure-manager'')
     else if sr_OrganizationId request = [] then
       Some (NewInvalidArgumentError emptyOrganizationId)
     else if sr_ClusterId request = [] then
       Some (NewInvalidArgumentError emptyClusterId)
     else if sr_IsManagementCluster request then
       Some (NewInvalidArgumentError ''can only scale application clusters'')
     else if sr_TargetPlatform request = Platform_AZURE \<and> sr_AzureCredentials request = None then
       Some (NewInvalidArgumentError ''azure_credentials cannot be empty'')
     else if sr_TargetPlatform request = Platform_AZURE
             \<and> azureOptionsMissing (sr_AzureOptions request) then
       Some (NewInvalidArgumentError ''azure_options.resource_group cannot be empty'')
     else None)"

definition ValidUninstallClusterRequest :: "UninstallClusterRequest \<Rightarrow> derror option" where
  "ValidUninstallClusterRequest request =
    (if ur_RequestId request \<noteq> [] then
       Some (NewInvalidArgumentError ''request_id is set by infrastructure-manager'')
     else if ur_OrganizationId request = [] then
       Some (NewInvalidArgumentError emptyOrganizationId)
     else if ur_ClusterId request = [] then
       Some (NewInvalidArgumentError emptyClusterId)
     else if ur_KubeConfigRaw request = [] then
       Some (NewInvalidArgumentError ''kube_config_raw cannot be empty'')
     else None)"

definition ValidDecommissionClusterRequest :: "DecommissionClusterRequest \<Rightarrow> derror option" where
  "ValidDecommissionClusterRequest request =
    (if dr_RequestId request \<noteq> [] then
       Some (NewInvalidArgumentError ''request_id is set by infrastructure-manager'')
     else if dr_OrganizationId request = [] then
       Some (NewInvalidArgumentError emptyOrganizationId)
     else if dr_ClusterId request = [] then
       Some (NewInvalidArgumentError emptyClusterId)
     else if dr_IsManagementCluster request then
       Some (NewInvalidArgumentError ''can only decommission application clusters'')
     else if dr_TargetPlatform request = Platform_AZURE \<and> dr_AzureCredentials request = None then
       Some (NewInvalidArgumentError ''azure_credentials cannot be empty'')
     else if dr_TargetPlatform request = Platform_AZURE
             \<and> azureOptionsMissing (dr_AzureOptions request) then
       Some (NewInvalidArgumentError ''azure_options.resource_group cannot be empty'')
     else None)"

text \<open>
  \<^verbatim>\<open>strings.Join\<close>. The label-value check itself, \<^verbatim>\<open>kValidation.IsValidLabelValue\<close>,
  belongs to the Kubernetes library: it is a parameter of \<open>ValidLabels\<close> and returns the
  list of complaints about one value. The Go map of labels is the list of its entries in
  the order the \<^verbatim>\<open>range\<close> loop visits them.
\<close>

fun Join :: "string list \<Rightarrow> string \<Rightarrow> string" where
  "Join [] sep = []"
| "Join [x] sep = x"
| "Join (x # y # ys) sep = x @ sep @ Join (y # ys) sep"

fun ValidLabels :: "(string \<Rightarrow> string list) \<Rightarrow> (string \<times> string) list \<Rightarrow> derror option" where
  "ValidLabels IsValidLabelValue [] = None"
| "ValidLabels IsValidLabelValue ((k, v) # labels) =
    (let validationErrors = IsValidLabelValue v in
     if length validationErrors \<noteq> 0 then
       Some (NewInvalidArgumentError (Join validationErrors '', ''))
     else ValidLabels IsValidLabelValue labels)"

definition ValidUpdateNodeRequest ::
  "(string \<Rightarrow> string list) \<Rightarrow> UpdateNodeRequest \<Rightarrow> derror option" where
  "ValidUpdateNodeRequest IsValidLabelValue request =
    (if unr_OrganizationId request = [] then
       Some (NewInvalidArgumentError emptyOrganizationId)
     else if unr_NodeId request \<noteq> [] then
       Some (NewInvalidArgumentError emptyNodeId)
     else if unr_AddLabels request then
       (case ValidLabels IsValidLabelValue (unr_Labels request) of
          Some validLabels \<Rightarrow> Some validLabels
        | None \<Rightarrow> None)
     else None)"

section \<open>Messages of the registry, installer and provisioner contracts\<close>

record ClusterId =
  cid_OrganizationId :: string
  cid_ClusterId :: string

record Cluster =
  c_OrganizationId :: string
  c_ClusterId :: string
  c_State :: ClusterState
  c_ClusterStatus :: ClusterStatus

text \<open>
  \<open>ucr_State\<close> is \<open>None\<close> where a struct literal of the source leaves the field out,
  so that it keeps the zero member of the enumeration.
\<close>

record UpdateClusterRequest =
  ucr_OrganizationId :: string
  ucr_ClusterId :: string
  ucr_UpdateClusterState :: bool
  ucr_State :: "ClusterState option"
  ucr_UpdateHostname :: bool
  ucr_Hostname :: string
  ucr_UpdateControlPlaneHostname :: bool
  ucr_ControlPlaneHostname :: string
  ucr_AddLabels :: bool
  ucr_Labels :: "(string \<times> string) list"

record EntNode =
  en_IP :: string
  en_Labels :: "(string \<times> string) list"

record EntCluster =
  ec_Name :: string
  ec_Hostname :: string
  ec_ControlPlaneHostname :: string
  ec_KubernetesVersion :: string
  ec_Nodes :: "EntNode list"

record AddClusterRequest =
  acr_RequestId :: string
  acr_OrganizationId :: string
  acr_Name :: string
  acr_Hostname :: string
  acr_ControlPlaneHostname :: string

record AddNodeRequest =
  anr_RequestId :: string
  anr_OrganizationId :: string
  anr_Ip :: string
  anr_Labels :: "(string \<times> string) list"

record AttachNodeRequest =
  atr_RequestId :: string
  atr_OrganizationId :: string
  atr_ClusterId :: string
  atr_NodeId :: string

record Node =
  n_NodeId :: string
  n_Status :: nat

record OpResponse =
  op_RequestId :: string
  op_OrganizationId :: string
  op_Status :: OpStatus
  op_Error :: string

record ProvisionClusterResponse =
  pcr_State :: ProvisionProgress
  pcr_RawKubeConfig :: string
  pcr_Hostname :: string
  pcr_StaticIpAddresses :: "StaticIpAddresses option"

record ScaleClusterResponse =
  scr_State :: ProvisionProgress

record ServiceInstance =
  si_OrganizationId :: string
  si_DeployedOnClusterId :: string

record ServiceGroupInstance =
  sg_ServiceInstances :: "ServiceInstance list"

record AppInstance =
  ai_Groups :: "ServiceGroupInstance list"

record AppInstanceList =
  ail_Instances :: "AppInstance list"

section \<open>The manager, its collaborators and what it does to them\<close>

text \<open>
  The methods of the manager that a monitor can be given as a callback, and the
  decommission chain token (\<^verbatim>\<open>monitor.DecommissionCallback\<close>): a callback and the request
  to call it with.
\<close>

datatype Callback = Manager_installCallback | Manager_uninstallCallback

datatype DecommissionFunc = Manager_Decommission

record DecommissionCallback =
  dc_Callback :: DecommissionFunc
  dc_Request :: DecommissionClusterRequest

record InstallerMonitor =
  im_clusterID :: string
  im_response :: OpResponse
  im_callback :: "Callback option"
  im_decommissionCallback :: "DecommissionCallback option"

text \<open>
  Everything the manager does to the outside is a call: a remote procedure call on one of
  its clients, an event on the bus, a file operation or Kubernetes discovery step, the
  launch of a monitor, or the entry into its own \<^verbatim>\<open>InstallCluster\<close> operation. The world
  is the list of calls made so far, oldest first, and the error and warning lines logged
  (by their message; debug lines are not kept).
\<close>

datatype Call =
    Call_UpdateCluster UpdateClusterRequest
  | Call_SendEvents UpdateClusterRequest
  | Call_GetCluster ClusterId
  | Call_AddCluster AddClusterRequest
  | Call_AddNode AddNodeRequest
  | Call_AttachNode AttachNodeRequest
  | Call_ListNodes ClusterId
  | Call_UpdateNode UpdateNodeRequest
  | Call_WriteTempFile string string
  | Call_RemoveFile string
  | Call_K8sConnect string
  | Call_K8sDiscover string
  | Call_InstallCluster InstallRequest
  | Call_UninstallCluster UninstallClusterRequest
  | Call_DecommissionCluster DecommissionClusterRequest
  | Call_ListAppInstances string
  | Launch_InstallerMonitor InstallerMonitor
  | Launch_DecommissionerMonitor string string
  | Invoke_InstallCluster InstallRequest

datatype LogEntry = LogError string | LogWarn string

record World =
  calls :: "Call list"
  logs :: "LogEntry list"

text \<open>
  The manager holds its clients. Each client operation answers from the calls made before
  it and the request, so two identical requests at different moments may be answered
  differently. A remote error is already a \<open>derror\<close> (\<^verbatim>\<open>conversions.ToDerror\<close> keeps type
  and message). A remote call that returns no error returns a response that is not nil.
  \<open>writeTempFile\<close> is the outcome of the source's method of that name, which depends on
  the file system only; \<open>k8s_Connect\<close> and \<open>k8s_Discover\<close> are the discovery helper of
  package k8s; \<open>OpStatusToNodeState\<close> is the conversion of package entities the install
  callback uses.
\<close>

record Manager =
  clusterClient_UpdateCluster :: "Call list \<Rightarrow> UpdateClusterRequest \<Rightarrow> derror + Cluster"
  clusterClient_GetCluster :: "Call list \<Rightarrow> ClusterId \<Rightarrow> derror + Cluster"
  clusterClient_AddCluster :: "Call list \<Rightarrow> AddClusterRequest \<Rightarrow> derror + Cluster"
  nodesClient_AddNode :: "Call list \<Rightarrow> AddNodeRequest \<Rightarrow> derror + Node"
  nodesClient_AttachNode :: "Call list \<Rightarrow> AttachNodeRequest \<Rightarrow> derror option"
  nodesClient_ListNodes :: "Call list \<Rightarrow> ClusterId \<Rightarrow> derror + Node list"
  nodesClient_UpdateNode :: "Call list \<Rightarrow> UpdateNodeRequest \<Rightarrow> derror option"
  installerClient_InstallCluster :: "Call list \<Rightarrow> InstallRequest \<Rightarrow> derror + OpResponse"
  installerClient_UninstallCluster ::
    "Call list \<Rightarrow> UninstallClusterRequest \<Rightarrow> derror + OpResponse"
  decommissionClient_DecommissionCluster ::
    "Call list \<Rightarrow> DecommissionClusterRequest \<Rightarrow> derror option"
  appClient_ListAppInstances :: "Call list \<Rightarrow> string \<Rightarrow> derror + AppInstanceList"
  busManager_SendEvents :: "Call list \<Rightarrow> UpdateClusterRequest \<Rightarrow> derror option"
  writeTempFile :: "Call list \<Rightarrow> string \<Rightarrow> string \<Rightarrow> derror + string"
  k8s_Connect :: "Call list \<Rightarrow> string \<Rightarrow> derror option"
  k8s_Discover :: "Call list \<Rightarrow> string \<Rightarrow> derror + EntCluster"
  OpStatusToNodeState :: "OpStatus \<Rightarrow> nat"

definition record_call :: "Call \<Rightarrow> World \<Rightarrow> World" where
  "record_call c w = w\<lparr>calls := calls w @ [c]\<rparr>"

definition log_error :: "string \<Rightarrow> World \<Rightarrow> World" where
  "log_error msg w = w\<lparr>logs := logs w @ [LogError msg]\<rparr>"

definition log_warn :: "string \<Rightarrow> World \<Rightarrow> World" where
  "log_warn msg w = w\<lparr>logs := logs w @ [LogWarn msg]\<rparr>"

text \<open>A function of the source either returns or stops in a nil-pointer panic.\<close>

datatype 'a outcome = Panicked | Returned 'a

section \<open>State accessor and event publisher\<close>

text \<open>
  \<^verbatim>\<open>updateClusterState\<close>: write the new state to the registry; if that worked, send the
  same request to the bus. Both failures are logged and returned.
\<close>

definition updateClusterState ::
  "Manager \<Rightarrow> string \<Rightarrow> string \<Rightarrow> ClusterState \<Rightarrow> World \<Rightarrow> derror option \<times> World" where
  "updateClusterState m organizationID clusterID newState w =
    (let updateRequest =
          \<lparr>ucr_OrganizationId = organizationID, ucr_ClusterId = clusterID,
           ucr_UpdateClusterState = True, ucr_State = Some newState,
           ucr_UpdateHostname = False, ucr_Hostname = [],
           ucr_UpdateControlPlaneHostname = False, ucr_ControlPlaneHostname = [],
           ucr_AddLabels = False, ucr_Labels = []\<rparr>;
         w1 = record_call (Call_UpdateCluster updateRequest) w
     in case clusterClient_UpdateCluster m (calls w) updateRequest of
          Inl dErr \<Rightarrow> (Some dErr, log_error ''cannot update cluster state'' w1)
        | Inr updated \<Rightarrow>
            (let w2 = record_call (Call_SendEvents updateRequest) w1
             in case busManager_SendEvents m (calls w1) updateRequest of
                  Some errBus \<Rightarrow>
                    (Some errBus,
                     log_error ''error in the bus when sending an update cluster request'' w2)
                | None \<Rightarrow> (None, w2)))"

text \<open>\<^verbatim>\<open>UpdateCluster\<close>: the same two steps for a request of the caller.\<close>

definition UpdateCluster ::
  "Manager \<Rightarrow> UpdateClusterRequest \<Rightarrow> World \<Rightarrow> (derror + Cluster) \<times> World" where
  "UpdateCluster m request w =
    (let w1 = record_call (Call_UpdateCluster request) w
     in case clusterClient_UpdateCluster m (calls w) request of
          Inl updateErr \<Rightarrow> (Inl updateErr, w1)
        | Inr updateResult \<Rightarrow>
            (let w2 = record_call (Call_SendEvents request) w1
             in case busManager_SendEvents m (calls w1) request of
                  Some errBus \<Rightarrow>
                    (Inl errBus,
                     log_error ''error in the bus when sending an update cluster request'' w2)
                | None \<Rightarrow> (Inr updateResult, w2)))"

definition getCluster ::
  "Manager \<Rightarrow> string \<Rightarrow> string \<Rightarrow> World \<Rightarrow> (derror + Cluster) \<times> World" where
  "getCluster m organizationID clusterID w =
    (let request = \<lparr>cid_OrganizationId = organizationID, cid_ClusterId = clusterID\<rparr>
     in (clusterClient_GetCluster m (calls w) request, record_call (Call_GetCluster request) w))"

section \<open>Node attachment and discovery\<close>

text \<open>
  \<^verbatim>\<open>attachNodes\<close>: for each node, register it and attach it to the cluster; the first
  failure ends the loop and is returned.
\<close>

fun attachNodes_loop ::
  "Manager \<Rightarrow> string \<Rightarrow> string \<Rightarrow> string \<Rightarrow> EntNode list \<Rightarrow> World \<Rightarrow> derror option \<times> World"
  where
  "attachNodes_loop m requestID organizationID clusterID [] w = (None, w)"
| "attachNodes_loop m requestID organizationID clusterID (n # ns) w =
    (let nodeToAdd = \<lparr>anr_RequestId = requestID, anr_OrganizationId = organizationID,
                      anr_Ip = en_IP n, anr_Labels = en_Labels n\<rparr>;
         w1 = record_call (Call_AddNode nodeToAdd) w
     in case nodesClient_AddNode m (calls w) nodeToAdd of
          Inl err \<Rightarrow> (Some err, w1)
        | Inr addedNode \<Rightarrow>
            (let attachReq = \<lparr>atr_RequestId = requestID, atr_OrganizationId = organizationID,
                              atr_ClusterId = clusterID, atr_NodeId = n_NodeId addedNode\<rparr>;
                 w2 = record_call (Call_AttachNode attachReq) w1
             in case nodesClient_AttachNode m (calls w1) attachReq of
                  Some err \<Rightarrow> (Some err, w2)
                | None \<Rightarrow> attachNodes_loop m requestID organizationID clusterID ns w2))"

definition attachNodes ::
  "Manager \<Rightarrow> string \<Rightarrow> string \<Rightarrow> string \<Rightarrow> EntCluster \<Rightarrow> World \<Rightarrow> derror option \<times> World"
  where
  "attachNodes m requestID organizationID clusterID cluster w =
     attachNodes_loop m requestID organizationID clusterID (ec_Nodes cluster) w"

text \<open>
  \<^verbatim>\<open>discoverCluster\<close>: the kubeconfig goes to a temporary file, the discovery helper
  connects and discovers, and the hostname of the result is overwritten. The source
  defers \<^verbatim>\<open>os.Remove(*tempFile)\<close> before it looks at the error of \<^verbatim>\<open>writeTempFile\<close>: when
  the file could not be written \<^verbatim>\<open>tempFile\<close> is nil and this dereference panics. The
  deferred removal runs when the function returns, on every later path.
\<close>

definition discoverCluster ::
  "Manager \<Rightarrow> string \<Rightarrow> string \<Rightarrow> string \<Rightarrow> World \<Rightarrow> (derror + EntCluster) outcome \<times> World"
  where
  "discoverCluster m requestID kubeConfig hostname w =
    (let w1 = record_call (Call_WriteTempFile kubeConfig requestID) w
     in case writeTempFile m (calls w) kubeConfig requestID of
          Inl err \<Rightarrow> (Panicked, w1)
        | Inr tempFile \<Rightarrow>
            (let w2 = record_call (Call_K8sConnect tempFile) w1
             in case k8s_Connect m (calls w1) tempFile of
                  Some err \<Rightarrow> (Returned (Inl err), record_call (Call_RemoveFile tempFile) w2)
                | None \<Rightarrow>
                    (let w3 = record_call (Call_K8sDiscover tempFile) w2
                     in case k8s_Discover m (calls w2) tempFile of
                          Inl err \<Rightarrow>
                            (Returned (Inl err), record_call (Call_RemoveFile tempFile) w3)
                        | Inr discovered \<Rightarrow>
                            (Returned (Inr (discovered\<lparr>ec_Hostname := hostname\<rparr>)),
                             record_call (Call_RemoveFile tempFile) w3))))"

text \<open>\<^verbatim>\<open>addClusterToSM\<close>: add the cluster, set its state, attach its nodes, read it back.\<close>

definition addClusterToSM ::
  "Manager \<Rightarrow> string \<Rightarrow> string \<Rightarrow> EntCluster \<Rightarrow> ClusterState \<Rightarrow> World
     \<Rightarrow> (derror + Cluster) \<times> World" where
  "addClusterToSM m requestID organizationID cluster clusterState w =
    (let toAdd = \<lparr>acr_RequestId = requestID, acr_OrganizationId = organizationID,
                  acr_Name = ec_Name cluster, acr_Hostname = ec_Hostname cluster,
                  acr_ControlPlaneHostname = ec_ControlPlaneHostname cluster\<rparr>;
         w1 = record_call (Call_AddCluster toAdd) w
     in case clusterClient_AddCluster m (calls w) toAdd of
          Inl err \<Rightarrow> (Inl err, w1)
        | Inr clusterAdded \<Rightarrow>
            (case updateClusterState m organizationID (c_ClusterId clusterAdded) clusterState w1 of
               (Some err, w2) \<Rightarrow> (Inl err, w2)
             | (None, w2) \<Rightarrow>
                 (case attachNodes m requestID organizationID (c_ClusterId clusterAdded)
                         cluster w2 of
                    (Some attErr, w3) \<Rightarrow> (Inl attErr, w3)
                  | (None, w3) \<Rightarrow>
                      (let clusterID = \<lparr>cid_OrganizationId = c_OrganizationId clusterAdded,
                                        cid_ClusterId = c_ClusterId clusterAdded\<rparr>
                       in (clusterClient_GetCluster m (calls w3) clusterID,
                           record_call (Call_GetCluster clusterID) w3)))))"

text \<open>
  \<^verbatim>\<open>getOrCreateProvisionedCluster\<close>: without a cluster id the cluster is discovered and
  added in state \<^verbatim>\<open>PROVISIONED\<close>; with one it is read from the registry. The source's
  last check, for a nil result without an error, cannot fire on a response that is not nil.
\<close>

definition getOrCreateProvisionedCluster ::
  "Manager \<Rightarrow> InstallRequest \<Rightarrow> World \<Rightarrow> (derror + Cluster) outcome \<times> World" where
  "getOrCreateProvisionedCluster m installRequest w =
    (if ir_ClusterId installRequest = [] then
       (case discoverCluster m (ir_RequestId installRequest) (ir_KubeConfigRaw installRequest)
               (ir_Hostname installRequest) w of
          (Panicked, w1) \<Rightarrow> (Panicked, w1)
        | (Returned (Inl err), w1) \<Rightarrow> (Returned (Inl err), w1)
        | (Returned (Inr discovered), w1) \<Rightarrow>
            (case addClusterToSM m (ir_RequestId installRequest)
                    (ir_OrganizationId installRequest) discovered ClusterState_PROVISIONED w1 of
               (Inl err, w2) \<Rightarrow> (Returned (Inl err), w2)
             | (Inr added, w2) \<Rightarrow> (Returned (Inr added), w2)))
     else
       (case getCluster m (ir_OrganizationId installRequest) (ir_ClusterId installRequest) w of
          (Inl err, w1) \<Rightarrow> (Returned (Inl err), w1)
        | (Inr retrieved, w1) \<Rightarrow> (Returned (Inr retrieved), w1)))"

section \<open>Install\<close>

text \<open>
  \<^verbatim>\<open>InstallCluster\<close>. The entry into the operation is recorded as a call, so that a caller
  inside the manager that triggers an installation can be observed.
  \<^verbatim>\<open>conversions.ToGRPCError\<close> keeps the error.
\<close>

definition InstallCluster ::
  "Manager \<Rightarrow> InstallRequest \<Rightarrow> World \<Rightarrow> (derror + OpResponse) outcome \<times> World" where
  "InstallCluster m request w =
    (case getOrCreateProvisionedCluster m request
            (record_call (Invoke_InstallCluster request) w) of
       (Panicked, w1) \<Rightarrow> (Panicked, w1)
     | (Returned (Inl err), w1) \<Rightarrow> (Returned (Inl err), w1)
     | (Returned (Inr cluster), w1) \<Rightarrow>
         (if ir_InstallBaseSystem request then
            (Returned (Inl (NewUnimplementedError ''InstallBaseSystem not supported'')), w1)
          else
            (let request = request\<lparr>ir_ClusterId := c_ClusterId cluster\<rparr>
             in if c_State cluster \<noteq> ClusterState_PROVISIONED then
                  (Returned (Inl (NewInvalidArgumentError
                                    ''selected cluster is not ready for install'')), w1)
                else
                  (case updateClusterState m (ir_OrganizationId request) (ir_ClusterId request)
                          ClusterState_INSTALL_IN_PROGRESS w1 of
                     (Some err, w2) \<Rightarrow>
                       (Returned (Inl err), log_error ''cannot update cluster state'' w2)
                   | (None, w2) \<Rightarrow>
                       (let w3 = record_call (Call_InstallCluster request) w2
                        in case installerClient_InstallCluster m (calls w2) request of
                             Inl iErr \<Rightarrow> (Returned (Inl iErr), w3)
                           | Inr response \<Rightarrow>
                               (let mon = \<lparr>im_clusterID = ir_ClusterId request,
                                           im_response = response,
                                           im_callback = Some Manager_installCallback,
                                           im_decommissionCallback = None\<rparr>
                                in (Returned (Inr response),
                                    record_call (Launch_InstallerMonitor mon) w3)))))))"

fun installCallback_loop ::
  "Manager \<Rightarrow> string \<Rightarrow> OpResponse \<Rightarrow> Node list \<Rightarrow> World \<Rightarrow> World" where
  "installCallback_loop m organizationID response [] w = w"
| "installCallback_loop m organizationID response (n # ns) w =
    (let updateNodeRequest =
          \<lparr>unr_OrganizationId = organizationID, unr_NodeId = n_NodeId n,
           unr_AddLabels = False, unr_Labels = [],
           unr_UpdateStatus = True, unr_Status = n_Status n,
           unr_UpdateState = True, unr_State = OpStatusToNodeState m (op_Status response)\<rparr>;
         w1 = record_call (Call_UpdateNode updateNodeRequest) w
     in case nodesClient_UpdateNode m (calls w) updateNodeRequest of
          Some updateErr \<Rightarrow> log_error ''cannot update the node status'' w1
        | None \<Rightarrow> installCallback_loop m organizationID response ns w1)"

definition installCallback ::
  "Manager \<Rightarrow> string \<Rightarrow> string \<Rightarrow> string \<Rightarrow> OpResponse option \<Rightarrow> derror option
     \<Rightarrow> World \<Rightarrow> World" where
  "installCallback m requestID organizationID clusterID response err w =
    (let w0 = (if err \<noteq> None then log_error ''error callback received'' w else w)
     in case response of
          None \<Rightarrow> w0
        | Some resp \<Rightarrow>
            (let failed = (err \<noteq> None \<or> op_Status resp = OpStatus_FAILED);
                 newState = (if failed then ClusterState_FAILURE else ClusterState_INSTALLED);
                 w1 = (if failed then log_warn ''installation failed'' w0 else w0)
             in case updateClusterState m organizationID clusterID newState w1 of
                  (err', w2) \<Rightarrow>
                    (let w3 = (if err' \<noteq> None
                               then log_error ''unable to update cluster state after install'' w2
                               else w2);
                         cID = \<lparr>cid_OrganizationId = organizationID, cid_ClusterId = clusterID\<rparr>;
                         w4 = record_call (Call_ListNodes cID) w3
                     in case nodesClient_ListNodes m (calls w3) cID of
                          Inl nErr \<Rightarrow>
                            log_error
                              ''cannot obtain the list of nodes in the cluster on install callback''
                              w4
                        | Inr nodes \<Rightarrow>
                            installCallback_loop m organizationID resp nodes w4)))"

section \<open>Provision, scale and uninstall completion callbacks\<close>

definition provisionCallback ::
  "Manager \<Rightarrow> string \<Rightarrow> string \<Rightarrow> string \<Rightarrow> ProvisionClusterResponse option \<Rightarrow> derror option
     \<Rightarrow> World \<Rightarrow> unit outcome \<times> World" where
  "provisionCallback m requestID organizationID clusterID lastResponse err w =
    (let w0 = (if err \<noteq> None then log_error ''error callback received'' w else w)
     in case lastResponse of
          None \<Rightarrow> (Returned (), w0)
        | Some lastResp \<Rightarrow>
            (let failed = (err \<noteq> None \<or> pcr_State lastResp = ProvisionProgress_ERROR);
                 newState = (if failed then ClusterState_FAILURE else ClusterState_PROVISIONED);
                 w1 = (if failed then log_warn ''Provision failed'' w0 else w0)
             in case updateClusterState m organizationID clusterID newState w1 of
                  (Some err', w2) \<Rightarrow>
                    (Returned (), log_error ''unable to update cluster state after provision'' w2)
                | (None, w2) \<Rightarrow>
                    (if newState = ClusterState_FAILURE then
                       (Returned (),
                        log_error ''install will not be triggered as provisioning failed'' w2)
                     else
                       (case discoverCluster m requestID (pcr_RawKubeConfig lastResp)
                               (pcr_Hostname lastResp) w2 of
                          (Panicked, w3) \<Rightarrow> (Panicked, w3)
                        | (Returned (Inl err'), w3) \<Rightarrow>
                            (Returned (), log_error ''unable to discover cluster'' w3)
                        | (Returned (Inr discovered), w3) \<Rightarrow>
                            (let clusterUpdate =
                                  \<lparr>ucr_OrganizationId = organizationID, ucr_ClusterId = clusterID,
                                   ucr_UpdateClusterState = False, ucr_State = None,
                                   ucr_UpdateHostname = True,
                                   ucr_Hostname = pcr_Hostname lastResp,
                                   ucr_UpdateControlPlaneHostname = True,
                                   ucr_ControlPlaneHostname = ec_ControlPlaneHostname discovered,
                                   ucr_AddLabels = False, ucr_Labels = []\<rparr>
                             in case UpdateCluster m clusterUpdate w3 of
                                  (updRes, w4) \<Rightarrow>
                                    (let w5 = (case updRes of
                                                 Inl updErr \<Rightarrow>
                                                   log_error ''error updating discovered cluster'' w4
                                               | Inr updated \<Rightarrow> w4)
                                     in case attachNodes m requestID organizationID clusterID
                                               discovered w5 of
                                          (attErr, w6) \<Rightarrow>
                                            (let w7 = (if attErr \<noteq> None
                                                       then log_error ''error attaching nodes'' w6
                                                       else w6);
                                                 installRequest =
                                                   \<lparr>ir_RequestId = requestID,
                                                    ir_OrganizationId = organizationID,
                                                    ir_ClusterId = clusterID,
                                                    ir_ClusterType = ClusterType_KUBERNETES,
                                                    ir_InstallBaseSystem = False,
                                                    ir_KubeConfigRaw = pcr_RawKubeConfig lastResp,
                                                    ir_Hostname = pcr_Hostname lastResp,
                                                    ir_Username = [], ir_PrivateKey = [],
                                                    ir_Nodes = [],
                                                    ir_TargetPlatform = Platform_AZURE,
                                                    ir_StaticIpAddresses =
                                                      pcr_StaticIpAddresses lastResp\<rparr>
                                             in case InstallCluster m installRequest w7 of
                                                  (Panicked, w8) \<Rightarrow> (Panicked, w8)
                                                | (Returned (Inl icErr), w8) \<Rightarrow>
                                                    (Returned (),
                                                     log_error
                                                       ''error creating install request after provisioning''
                                                       w8)
                                                | (Returned (Inr response), w8) \<Rightarrow>
                                                    (Returned (), w8))))))))"

definition scaleCallback ::
  "Manager \<Rightarrow> string \<Rightarrow> string \<Rightarrow> string \<Rightarrow> ScaleClusterResponse option \<Rightarrow> derror option
     \<Rightarrow> World \<Rightarrow> World" where
  "scaleCallback m requestID organizationID clusterID lastResponse err w =
    (let w0 = (if err \<noteq> None then log_error ''error callback received'' w else w)
     in case lastResponse of
          None \<Rightarrow> w0
        | Some lastResp \<Rightarrow>
            (let failed = (err \<noteq> None \<or> scr_State lastResp = ProvisionProgress_ERROR);
                 newState = (if failed then ClusterState_FAILURE else ClusterState_INSTALLED);
                 w1 = (if failed then log_warn ''Scaling failed'' w0 else w0)
             in case updateClusterState m organizationID clusterID newState w1 of
                  (err', w2) \<Rightarrow>
                    (if err' \<noteq> None
                     then log_error ''unable to update cluster state after scale'' w2
                     else w2)))"

definition uninstallCallback ::
  "Manager \<Rightarrow> string \<Rightarrow> string \<Rightarrow> string \<Rightarrow> OpResponse option \<Rightarrow> derror option
     \<Rightarrow> World \<Rightarrow> World" where
  "uninstallCallback m requestID organizationID clusterID response err w =
    (let w0 = (if err \<noteq> None then log_error ''error callback received'' w else w)
     in case response of
          None \<Rightarrow> w0
        | Some resp \<Rightarrow>
            (let failed = (err \<noteq> None \<or> op_Status resp = OpStatus_FAILED);
                 newState = (if failed then ClusterState_FAILURE else ClusterState_PROVISIONED);
                 w1 = (if failed then log_warn ''uninstall failed'' w0 else w0)
             in case updateClusterState m organizationID clusterID newState w1 of
                  (err', w2) \<Rightarrow>
                    (if err' \<noteq> None
                     then log_error ''unable to update cluster state after uninstall'' w2
                     else w2)))"

section \<open>Uninstall and decommission\<close>

text \<open>
  \<^verbatim>\<open>clusterHasApps\<close>: three nested loops over the application instances of the
  organization, returning true at the first service instance deployed on the cluster.
\<close>

definition clusterHasApps ::
  "Manager \<Rightarrow> string \<Rightarrow> string \<Rightarrow> World \<Rightarrow> (derror + bool) \<times> World" where
  "clusterHasApps m organizationID clusterID w =
    (let w1 = record_call (Call_ListAppInstances organizationID) w
     in case appClient_ListAppInstances m (calls w) organizationID of
          Inl err \<Rightarrow> (Inl err, w1)
        | Inr instances \<Rightarrow>
            (Inr (list_ex (\<lambda>inst.
                    list_ex (\<lambda>sg.
                      list_ex (\<lambda>s. si_OrganizationId s = organizationID
                                    \<and> si_DeployedOnClusterId s = clusterID)
                        (sg_ServiceInstances sg))
                      (ai_Groups inst))
                    (ail_Instances instances)),
             w1))"

definition canUninstallCluster ::
  "Manager \<Rightarrow> string \<Rightarrow> string \<Rightarrow> World \<Rightarrow> derror option \<times> World" where
  "canUninstallCluster m organizationID clusterID w =
    (let cID = \<lparr>cid_OrganizationId = organizationID, cid_ClusterId = clusterID\<rparr>;
         w1 = record_call (Call_GetCluster cID) w
     in case clusterClient_GetCluster m (calls w) cID of
          Inl err \<Rightarrow> (Some err, w1)
        | Inr cluster \<Rightarrow>
            (case clusterHasApps m organizationID clusterID w1 of
               (Inl hErr, w2) \<Rightarrow> (Some hErr, w2)
             | (Inr hasApps, w2) \<Rightarrow>
                 (if hasApps then
                    (Some (NewFailedPreconditionError ''target cluster has deployed applications''),
                     w2)
                  else if c_ClusterStatus cluster \<noteq> ClusterStatus_ONLINE_CORDON then
                    (Some (NewFailedPreconditionError
                             ''target cluster must be online and cordoned''), w2)
                  else (None, w2))))"

text \<open>
  \<^verbatim>\<open>Uninstall\<close>: check that the cluster can be uninstalled, write \<^verbatim>\<open>UNINSTALLING\<close>, ask
  the installer, and launch an installer monitor with \<^verbatim>\<open>uninstallCallback\<close> and the
  decommission callback the caller gave (nil or not) registered.
\<close>

definition Uninstall ::
  "Manager \<Rightarrow> UninstallClusterRequest \<Rightarrow> DecommissionCallback option \<Rightarrow> World
     \<Rightarrow> (derror + OpResponse) \<times> World" where
  "Uninstall m request decommissionCallback w =
    (case canUninstallCluster m (ur_OrganizationId request) (ur_ClusterId request) w of
       (Some canUninstallErr, w1) \<Rightarrow> (Inl canUninstallErr, w1)
     | (None, w1) \<Rightarrow>
         (case updateClusterState m (ur_OrganizationId request) (ur_ClusterId request)
                 ClusterState_UNINSTALLING w1 of
            (Some err, w2) \<Rightarrow> (Inl err, w2)
          | (None, w2) \<Rightarrow>
              (let w3 = record_call (Call_UninstallCluster request) w2
               in case installerClient_UninstallCluster m (calls w2) request of
                    Inl uErr \<Rightarrow>
                      (case updateClusterState m (ur_OrganizationId request)
                              (ur_ClusterId request) ClusterState_FAILURE w3 of
                         (Some err, w4) \<Rightarrow>
                           (Inl uErr, log_error ''cannot update failed cluster uninstall'' w4)
                       | (None, w4) \<Rightarrow> (Inl uErr, w4))
                  | Inr response \<Rightarrow>
                      (let mon = \<lparr>im_clusterID = ur_ClusterId request,
                                  im_response = response,
                                  im_callback = Some Manager_uninstallCallback,
                                  im_decommissionCallback = decommissionCallback\<rparr>
                       in (Inr response, record_call (Launch_InstallerMonitor mon) w3)))))"

text \<open>
  \<^verbatim>\<open>Decommission\<close>: copy the request, ask the decommissioner, and on success launch a
  decommissioner monitor for the cluster.
\<close>

definition Decommission :: "Manager \<Rightarrow> DecommissionClusterRequest \<Rightarrow> World \<Rightarrow> World" where
  "Decommission m request w =
    (let decommissionRequest =
          \<lparr>dr_RequestId = dr_RequestId request,
           dr_OrganizationId = dr_OrganizationId request,
           dr_ClusterId = dr_ClusterId request,
           dr_ClusterType = dr_ClusterType request,
           dr_IsManagementCluster = dr_IsManagementCluster request,
           dr_TargetPlatform = dr_TargetPlatform request,
           dr_AzureCredentials = dr_AzureCredentials request,
           dr_AzureOptions = dr_AzureOptions request\<rparr>;
         w1 = record_call (Call_DecommissionCluster decommissionRequest) w
     in case decommissionClient_DecommissionCluster m (calls w) decommissionRequest of
          Some derr \<Rightarrow> log_error ''unable to decommission cluster'' w1
        | None \<Rightarrow>
            record_call (Launch_DecommissionerMonitor (dr_ClusterId request)
                           (dr_RequestId request)) w1)"

text \<open>
  Modelled from the spec: what an installer-operation monitor does when the operation it
  watches reaches its end. Package \<^verbatim>\<open>monitor\<close> is not among the source files. The spec
  says that the monitor invokes every registered callback once, in registration order,
  passing the request id, organization id, cluster id, the final response and the watch
  error, and that the second callback of an uninstall triggers decommissioning only if a
  decommission chain token was supplied: the token's callback is then called with the
  token's request.
\<close>

definition invokeCallback ::
  "Manager \<Rightarrow> Callback \<Rightarrow> string \<Rightarrow> string \<Rightarrow> string \<Rightarrow> OpResponse option \<Rightarrow> derror option
     \<Rightarrow> World \<Rightarrow> World" where
  "invokeCallback m cb requestID organizationID clusterID response err w =
    (case cb of
       Manager_installCallback \<Rightarrow>
         installCallback m requestID organizationID clusterID response err w
     | Manager_uninstallCallback \<Rightarrow>
         uninstallCallback m requestID organizationID clusterID response err w)"

definition invokeDecommissionCallback ::
  "Manager \<Rightarrow> DecommissionCallback \<Rightarrow> World \<Rightarrow> World" where
  "invokeDecommissionCallback m token w =
    (case dc_Callback token of Manager_Decommission \<Rightarrow> Decommission m (dc_Request token) w)"

definition InstallerMonitor_complete ::
  "Manager \<Rightarrow> InstallerMonitor \<Rightarrow> OpResponse option \<Rightarrow> derror option \<Rightarrow> World \<Rightarrow> World" where
  "InstallerMonitor_complete m mon response err w =
    (let w1 = (case im_callback mon of
                 None \<Rightarrow> w
               | Some cb \<Rightarrow>
                   invokeCallback m cb (op_RequestId (im_response mon))
                     (op_OrganizationId (im_response mon)) (im_clusterID mon) response err w)
     in case im_decommissionCallback mon of
          None \<Rightarrow> w1
        | Some token \<Rightarrow> invokeDecommissionCallback m token w1)"

section \<open>Observations on results and worlds\<close>

definition isInvalidArgument :: "derror option \<Rightarrow> bool" where
  "isInvalidArgument r = (case r of None \<Rightarrow> False | Some e \<Rightarrow> errorType e = InvalidArgument)"

definition isFailedPrecondition :: "derror + 'a \<Rightarrow> bool" where
  "isFailedPrecondition r =
    (case r of Inl e \<Rightarrow> errorType e = FailedPrecondition | Inr x \<Rightarrow> False)"

text \<open>The calls a step added to the world, given the world before and after it.\<close>

definition newCalls :: "World \<Rightarrow> World \<Rightarrow> Call list" where
  "newCalls w w' = drop (length (calls w)) (calls w')"

definition newLogs :: "World \<Rightarrow> World \<Rightarrow> LogEntry list" where
  "newLogs w w' = drop (length (logs w)) (logs w')"

text \<open>
  The install requests in a list of calls: those the manager's \<^verbatim>\<open>InstallCluster\<close> was
  entered with and those sent to the installer.
\<close>

fun installRequestsOf :: "Call list \<Rightarrow> InstallRequest list" where
  "installRequestsOf [] = []"
| "installRequestsOf (Invoke_InstallCluster r # cs) = r # installRequestsOf cs"
| "installRequestsOf (Call_InstallCluster r # cs) = r # installRequestsOf cs"
| "installRequestsOf (c # cs) = installRequestsOf cs"

text \<open>Calls that write a node's record, and the decommission requests in a list of calls.\<close>

fun isNodeWrite :: "Call \<Rightarrow> bool" where
  "isNodeWrite (Call_UpdateNode r) = True"
| "isNodeWrite (Call_AddNode r) = True"
| "isNodeWrite (Call_AttachNode r) = True"
| "isNodeWrite c = False"

fun decommissionsOf :: "Call list \<Rightarrow> DecommissionClusterRequest list" where
  "decommissionsOf [] = []"
| "decommissionsOf (Call_DecommissionCluster r # cs) = r # decommissionsOf cs"
| "decommissionsOf (c # cs) = decommissionsOf cs"

text \<open>
  The requests \<^verbatim>\<open>InstallCluster\<close> was entered with, the requests sent to the installer, and
  the installer monitors launched, in a list of calls.
\<close>

fun installEntriesOf :: "Call list \<Rightarrow> InstallRequest list" where
  "installEntriesOf [] = []"
| "installEntriesOf (Invoke_InstallCluster r # cs) = r # installEntriesOf cs"
| "installEntriesOf (c # cs) = installEntriesOf cs"

fun sentToInstaller :: "Call list \<Rightarrow> InstallRequest list" where
  "sentToInstaller [] = []"
| "sentToInstaller (Call_InstallCluster r # cs) = r # sentToInstaller cs"
| "sentToInstaller (c # cs) = sentToInstaller cs"

fun monitorsOf :: "Call list \<Rightarrow> InstallerMonitor list" where
  "monitorsOf [] = []"
| "monitorsOf (Launch_InstallerMonitor mon # cs) = mon # monitorsOf cs"
| "monitorsOf (c # cs) = monitorsOf cs"

text \<open>The install request the provision callback builds from the provisioner's response.\<close>

definition provisionInstallRequest ::
  "string \<Rightarrow> string \<Rightarrow> string \<Rightarrow> ProvisionClusterResponse \<Rightarrow> InstallRequest" where
  "provisionInstallRequest requestID organizationID clusterID lastResp =
    \<lparr>ir_RequestId = requestID, ir_OrganizationId = organizationID, ir_ClusterId = clusterID,
     ir_ClusterType = ClusterType_KUBERNETES, ir_InstallBaseSystem = False,
     ir_KubeConfigRaw = pcr_RawKubeConfig lastResp, ir_Hostname = pcr_Hostname lastResp,
     ir_Username = [], ir_PrivateKey = [], ir_Nodes = [],
     ir_TargetPlatform = Platform_AZURE,
     ir_StaticIpAddresses = pcr_StaticIpAddresses lastResp\<rparr>"

text \<open>Discovery returned a cluster: no panic and no error.\<close>

definition discoveredOk :: "(derror + EntCluster) outcome \<Rightarrow> bool" where
  "discoveredOk res =
    (case res of
       Panicked \<Rightarrow> False
     | Returned (Inl e) \<Rightarrow> False
     | Returned (Inr discovered) \<Rightarrow> True)"

text \<open>
  The world in which the provision callback enters \<^verbatim>\<open>InstallCluster\<close>, from the world
  after discovery: the hostnames of the cluster have been updated and the discovered nodes
  attached, each failure logged and passed over.
\<close>

definition installEntryWorld ::
  "Manager \<Rightarrow> string \<Rightarrow> string \<Rightarrow> string \<Rightarrow> ProvisionClusterResponse \<Rightarrow> EntCluster \<Rightarrow> World
     \<Rightarrow> World" where
  "installEntryWorld m requestID organizationID clusterID lastResp discovered w3 =
    (let clusterUpdate =
          \<lparr>ucr_OrganizationId = organizationID, ucr_ClusterId = clusterID,
           ucr_UpdateClusterState = False, ucr_State = None,
           ucr_UpdateHostname = True, ucr_Hostname = pcr_Hostname lastResp,
           ucr_UpdateControlPlaneHostname = True,
           ucr_ControlPlaneHostname = ec_ControlPlaneHostname discovered,
           ucr_AddLabels = False, ucr_Labels = []\<rparr>
     in case UpdateCluster m clusterUpdate w3 of
          (updRes, w4) \<Rightarrow>
            (let w5 = (case updRes of
                         Inl updErr \<Rightarrow> log_error ''error updating discovered cluster'' w4
                       | Inr updated \<Rightarrow> w4)
             in case attachNodes m requestID organizationID clusterID discovered w5 of
                  (attErr, w6) \<Rightarrow>
                    (if attErr \<noteq> None then log_error ''error attaching nodes'' w6 else w6)))"

text \<open>
  In the words of the spec: at least one service instance of the listed applications is
  deployed on the cluster of the organization.
\<close>

definition serviceDeployedOn :: "string \<Rightarrow> string \<Rightarrow> AppInstanceList \<Rightarrow> bool" where
  "serviceDeployedOn organizationID clusterID instances =
    (\<exists>inst \<in> set (ail_Instances instances).
       \<exists>sg \<in> set (ai_Groups inst).
         \<exists>s \<in> set (sg_ServiceInstances sg).
           si_OrganizationId s = organizationID \<and> si_DeployedOnClusterId s = clusterID)"

section \<open>Concrete requests and collaborators\<close>

definition installWithKubeConfig :: InstallRequest where
  "installWithKubeConfig =
    \<lparr>ir_RequestId = [], ir_OrganizationId = ''o1'', ir_ClusterId = [],
     ir_ClusterType = ClusterType_KUBERNETES, ir_InstallBaseSystem = False,
     ir_KubeConfigRaw = ''kubeconfig'', ir_Hostname = ''c1.example.org'',
     ir_Username = [], ir_PrivateKey = [], ir_Nodes = [],
     ir_TargetPlatform = Platform_AZURE, ir_StaticIpAddresses = None\<rparr>"

definition installWithUsername :: InstallRequest where
  "installWithUsername =
    installWithKubeConfig\<lparr>ir_KubeConfigRaw := [], ir_Username := ''admin'',
      ir_PrivateKey := ''key'', ir_Nodes := [''10.0.0.1'']\<rparr>"

definition installWithBoth :: InstallRequest where
  "installWithBoth = installWithUsername\<lparr>ir_KubeConfigRaw := ''kubeconfig''\<rparr>"

definition provisionWithRequestId :: ProvisionClusterRequest where
  "provisionWithRequestId =
    \<lparr>pr_RequestId = ''r1'', pr_OrganizationId = ''o1'', pr_ClusterId = [],
     pr_ClusterName = ''c1'', pr_KubernetesVersion = ''1.15'',
     pr_IsManagementCluster = False, pr_NumNodes = 3, pr_NodeType = ''std'',
     pr_TargetPlatform = Platform_AZURE, pr_AzureCredentials = Some ''credentials'',
     pr_AzureOptions = Some \<lparr>ResourceGroup = ''rg''\<rparr>\<rparr>"

definition scaleOnAzure :: ScaleClusterRequest where
  "scaleOnAzure =
    \<lparr>sr_RequestId = [], sr_OrganizationId = ''o1'', sr_ClusterId = ''c1'',
     sr_IsManagementCluster = False, sr_TargetPlatform = Platform_AZURE,
     sr_AzureCredentials = None, sr_AzureOptions = None\<rparr>"

definition uninstallOnAzure :: UninstallClusterRequest where
  "uninstallOnAzure =
    \<lparr>ur_RequestId = [], ur_OrganizationId = ''o1'', ur_ClusterId = ''c1'',
     ur_ClusterType = ClusterType_KUBERNETES, ur_KubeConfigRaw = ''kubeconfig'',
     ur_TargetPlatform = Platform_AZURE\<rparr>"

definition decommissionOnAzure :: DecommissionClusterRequest where
  "decommissionOnAzure =
    \<lparr>dr_RequestId = [], dr_OrganizationId = ''o1'', dr_ClusterId = ''c1'',
     dr_ClusterType = ClusterType_KUBERNETES, dr_IsManagementCluster = False,
     dr_TargetPlatform = Platform_AZURE, dr_AzureCredentials = None,
     dr_AzureOptions = None\<rparr>"

definition updateNodeNoId :: UpdateNodeRequest where
  "updateNodeNoId =
    \<lparr>unr_OrganizationId = ''o1'', unr_NodeId = [], unr_AddLabels = True,
     unr_Labels = [(''zone'', ''eu'')], unr_UpdateStatus = False, unr_Status = 0,
     unr_UpdateState = False, unr_State = 0\<rparr>"

text \<open>
  A manager whose collaborators all answer without error: the registry knows one cluster,
  provisioned, online and cordoned, with one node; no application runs on it.
\<close>

definition cluster1 :: Cluster where
  "cluster1 =
    \<lparr>c_OrganizationId = ''o1'', c_ClusterId = ''c1'', c_State = ClusterState_PROVISIONED,
     c_ClusterStatus = ClusterStatus_ONLINE_CORDON\<rparr>"

definition node1 :: Node where
  "node1 = \<lparr>n_NodeId = ''n1'', n_Status = 0\<rparr>"

definition discovered1 :: EntCluster where
  "discovered1 =
    \<lparr>ec_Name = ''c1'', ec_Hostname = [], ec_ControlPlaneHostname = ''cp.c1.example.org'',
     ec_KubernetesVersion = ''1.15'',
     ec_Nodes = [\<lparr>en_IP = ''10.0.0.1'', en_Labels = []\<rparr>]\<rparr>"

definition response1 :: OpResponse where
  "response1 =
    \<lparr>op_RequestId = ''r1'', op_OrganizationId = ''o1'', op_Status = OpStatus_other 0,
     op_Error = []\<rparr>"

definition provisioned1 :: ProvisionClusterResponse where
  "provisioned1 =
    \<lparr>pcr_State = ProvisionProgress_other 0, pcr_RawKubeConfig = ''kubeconfig'',
     pcr_Hostname = ''c1.example.org'', pcr_StaticIpAddresses = None\<rparr>"

definition reliableManager :: Manager where
  "reliableManager =
    \<lparr>clusterClient_UpdateCluster = (\<lambda>h r. Inr cluster1),
     clusterClient_GetCluster = (\<lambda>h c. Inr cluster1),
     clusterClient_AddCluster = (\<lambda>h r. Inr cluster1),
     nodesClient_AddNode = (\<lambda>h r. Inr node1),
     nodesClient_AttachNode = (\<lambda>h r. None),
     nodesClient_ListNodes = (\<lambda>h c. Inr [node1]),
     nodesClient_UpdateNode = (\<lambda>h r. None),
     installerClient_InstallCluster = (\<lambda>h r. Inr response1),
     installerClient_UninstallCluster = (\<lambda>h r. Inr response1),
     decommissionClient_DecommissionCluster = (\<lambda>h r. None),
     appClient_ListAppInstances = (\<lambda>h org. Inr \<lparr>ail_Instances = []\<rparr>),
     busManager_SendEvents = (\<lambda>h r. None),
     writeTempFile = (\<lambda>h content prefix. Inr ''/tmp/r1''),
     k8s_Connect = (\<lambda>h file. None),
     k8s_Discover = (\<lambda>h file. Inr discovered1),
     OpStatusToNodeState = (\<lambda>st. 0)\<rparr>"

definition busError :: derror where
  "busError = DError Unavailable ''bus is down''"

definition discoveryError :: derror where
  "discoveryError = DError Unavailable ''cluster is unreachable''"

text \<open>The same manager with a bus that refuses every event.\<close>

definition busDownManager :: Manager where
  "busDownManager = reliableManager\<lparr>busManager_SendEvents := (\<lambda>h r. Some busError)\<rparr>"

text \<open>The same manager when the new cluster cannot be reached for discovery.\<close>

definition unreachableManager :: Manager where
  "unreachableManager = reliableManager\<lparr>k8s_Connect := (\<lambda>h file. Some discoveryError)\<rparr>"

text \<open>The same manager when the cluster in the registry is online and not cordoned.\<close>

definition uncordonedManager :: Manager where
  "uncordonedManager =
    reliableManager\<lparr>clusterClient_GetCluster :=
      (\<lambda>h c. Inr (cluster1\<lparr>c_ClusterStatus := ClusterStatus_other 0\<rparr>))\<rparr>"

text \<open>
  The same manager when the cluster in the registry is in state \<^verbatim>\<open>FAILURE\<close>, online and
  cordoned.
\<close>

definition failedClusterManager :: Manager where
  "failedClusterManager =
    reliableManager\<lparr>clusterClient_GetCluster :=
      (\<lambda>h c. Inr (cluster1\<lparr>c_State := ClusterState_FAILURE\<rparr>))\<rparr>"

text \<open>A decommission chain token for the cluster.\<close>

definition token1 :: DecommissionCallback where
  "token1 = \<lparr>dc_Callback = Manager_Decommission,
             dc_Request = decommissionOnAzure\<lparr>dr_RequestId := ''r1''\<rparr>\<rparr>"

definition world0 :: World where
  "world0 = \<lparr>calls = [], logs = []\<rparr>"

text \<open>The request \<^verbatim>\<open>updateClusterState\<close> builds.\<close>

definition stateUpdateRequest :: "string \<Rightarrow> string \<Rightarrow> ClusterState \<Rightarrow> UpdateClusterRequest" where
  "stateUpdateRequest organizationID clusterID newState =
    \<lparr>ucr_OrganizationId = organizationID, ucr_ClusterId = clusterID,
     ucr_UpdateClusterState = True, ucr_State = Some newState,
     ucr_UpdateHostname = False, ucr_Hostname = [],
     ucr_UpdateControlPlaneHostname = False, ucr_ControlPlaneHostname = [],
     ucr_AddLabels = False, ucr_Labels = []\<rparr>"

definition hostnameUpdate1 :: UpdateClusterRequest where
  "hostnameUpdate1 =
    \<lparr>ucr_OrganizationId = ''o1'', ucr_ClusterId = ''c1'',
     ucr_UpdateClusterState = False, ucr_State = None,
     ucr_UpdateHostname = True, ucr_Hostname = ''c1.example.org'',
     ucr_UpdateControlPlaneHostname = False, ucr_ControlPlaneHostname = [],
     ucr_AddLabels = False, ucr_Labels = []\<rparr>"

text \<open>A label-value check that accepts every value without a blank.\<close>

definition noBlankLabelValue :: "string \<Rightarrow> string list" where
  "noBlankLabelValue v = (if CHR '' '' \<in> set v then [''a label value has no blank''] else [])"

section \<open>The calls each operation makes\<close>

lemma calls_record_call [simp]: "calls (record_call c w) = calls w @ [c]"
  by (simp add: record_call_def)

lemma logs_record_call [simp]: "logs (record_call c w) = logs w"
  by (simp add: record_call_def)

lemma calls_log_error [simp]: "calls (log_error msg w) = calls w"
  by (simp add: log_error_def)

lemma logs_log_error [simp]: "logs (log_error msg w) = logs w @ [LogError msg]"
  by (simp add: log_error_def)

lemma calls_log_warn [simp]: "calls (log_warn msg w) = calls w"
  by (simp add: log_warn_def)

lemma logs_log_warn [simp]: "logs (log_warn msg w) = logs w @ [LogWarn msg]"
  by (simp add: log_warn_def)

lemma installRequestsOf_append [simp]:
  "installRequestsOf (xs @ ys) = installRequestsOf xs @ installRequestsOf ys"
  by (induction xs rule: installRequestsOf.induct) simp_all

lemma decommissionsOf_append [simp]:
  "decommissionsOf (xs @ ys) = decommissionsOf xs @ decommissionsOf ys"
  by (induction xs rule: decommissionsOf.induct) simp_all

lemma newCalls_append [simp]: "calls w' = calls w @ xs \<Longrightarrow> newCalls w w' = xs"
  by (simp add: newCalls_def)

text \<open>
  Every operation only adds calls at the end of the list. \<^verbatim>\<open>updateClusterState\<close> and
  \<^verbatim>\<open>UpdateCluster\<close> start with the registry call; no operation below \<^verbatim>\<open>InstallCluster\<close>
  adds an install request.
\<close>

lemma updateClusterState_ext:
  "updateClusterState m org cid st w = (r, w') \<Longrightarrow>
   \<exists>xs. calls w' = calls w @ Call_UpdateCluster (stateUpdateRequest org cid st) # xs
        \<and> installRequestsOf xs = []"
  by (auto simp: updateClusterState_def stateUpdateRequest_def Let_def
      split: sum.splits option.splits)

lemma UpdateCluster_ext:
  "UpdateCluster m request w = (r, w') \<Longrightarrow>
   \<exists>xs. calls w' = calls w @ xs \<and> installRequestsOf xs = []"
  by (auto simp: UpdateCluster_def Let_def split: sum.splits option.splits)

lemma getCluster_ext:
  "getCluster m org cid w = (r, w') \<Longrightarrow>
   \<exists>xs. calls w' = calls w @ xs \<and> installRequestsOf xs = []"
  by (auto simp: getCluster_def Let_def)

lemma discoverCluster_ext:
  "discoverCluster m rid kubeConfig hostname w = (r, w') \<Longrightarrow>
   \<exists>xs. calls w' = calls w @ xs \<and> installRequestsOf xs = []"
  by (auto simp: discoverCluster_def Let_def split: sum.splits option.splits)

lemma attachNodes_loop_ext:
  "attachNodes_loop m rid org cid ns w = (r, w') \<Longrightarrow>
   \<exists>xs. calls w' = calls w @ xs \<and> installRequestsOf xs = []"
proof (induction ns arbitrary: w)
  case Nil
  then show ?case by simp
next
  case (Cons n ns)
  show ?case
  proof (cases "nodesClient_AddNode m (calls w)
                  \<lparr>anr_RequestId = rid, anr_OrganizationId = org,
                   anr_Ip = en_IP n, anr_Labels = en_Labels n\<rparr>")
    case (Inl e)
    with Cons.prems show ?thesis by (auto simp: Let_def)
  next
    case (Inr added)
    let ?w1 = "record_call (Call_AddNode \<lparr>anr_RequestId = rid, anr_OrganizationId = org,
                   anr_Ip = en_IP n, anr_Labels = en_Labels n\<rparr>) w"
    let ?att = "\<lparr>atr_RequestId = rid, atr_OrganizationId = org,
                   atr_ClusterId = cid, atr_NodeId = n_NodeId added\<rparr>"
    show ?thesis
    proof (cases "nodesClient_AttachNode m (calls ?w1) ?att")
      case (Some e)
      with Cons.prems Inr show ?thesis by (auto simp: Let_def)
    next
      case None
      with Cons.prems Inr
      have "attachNodes_loop m rid org cid ns (record_call (Call_AttachNode ?att) ?w1) = (r, w')"
        by (simp add: Let_def)
      from Cons.IH [OF this] show ?thesis by auto
    qed
  qed
qed

lemma attachNodes_ext:
  "attachNodes m rid org cid cl w = (r, w') \<Longrightarrow>
   \<exists>xs. calls w' = calls w @ xs \<and> installRequestsOf xs = []"
  by (simp add: attachNodes_def attachNodes_loop_ext)

lemma addClusterToSM_ext:
  "addClusterToSM m rid org cl st w = (r, w') \<Longrightarrow>
   \<exists>xs. calls w' = calls w @ xs \<and> installRequestsOf xs = []"
  by (auto simp: addClusterToSM_def Let_def
      split: sum.splits option.splits prod.splits
      dest!: updateClusterState_ext attachNodes_ext)

lemma getOrCreateProvisionedCluster_ext:
  "getOrCreateProvisionedCluster m request w = (r, w') \<Longrightarrow>
   \<exists>xs. calls w' = calls w @ xs \<and> installRequestsOf xs = []"
  by (auto simp: getOrCreateProvisionedCluster_def
      split: sum.splits outcome.splits prod.splits if_splits
      dest!: discoverCluster_ext addClusterToSM_ext getCluster_ext)

text \<open>
  \<^verbatim>\<open>InstallCluster\<close> adds its own entry with the request it was given, and sends the
  installer at most that request with the cluster id filled in.
\<close>

lemma InstallCluster_ext:
  "InstallCluster m request w = (r, w') \<Longrightarrow>
   \<exists>xs. calls w' = calls w @ Invoke_InstallCluster request # xs
        \<and> (installRequestsOf xs = []
            \<or> (\<exists>c. installRequestsOf xs = [request\<lparr>ir_ClusterId := c\<rparr>]))"
  by (auto simp: InstallCluster_def Let_def
      split: sum.splits outcome.splits option.splits prod.splits if_splits
      dest!: getOrCreateProvisionedCluster_ext updateClusterState_ext)

text \<open>
  The provision callback: every install request it adds is for Azure; its first call, given
  a response, is the registry write of the new state; and when it adds an install request
  at all.
\<close>

lemma provisionCallback_ext:
  "provisionCallback m rid org cid lastResponse err w = (r, w') \<Longrightarrow>
   \<exists>xs. calls w' = calls w @ xs
        \<and> (\<forall>q\<in>set (installRequestsOf xs). ir_TargetPlatform q = Platform_AZURE)"
  by (auto simp: provisionCallback_def Let_def
      split: sum.splits outcome.splits option.splits prod.splits if_splits
      dest!: updateClusterState_ext discoverCluster_ext UpdateCluster_ext attachNodes_ext
        InstallCluster_ext)

lemma provisionCallback_first:
  "provisionCallback m rid org cid (Some lr) err w = (r, w') \<Longrightarrow>
   \<exists>xs. calls w' = calls w @
          Call_UpdateCluster (stateUpdateRequest org cid
            (if err \<noteq> None \<or> pcr_State lr = ProvisionProgress_ERROR
             then ClusterState_FAILURE else ClusterState_PROVISIONED)) # xs"
  by (auto simp: provisionCallback_def Let_def
      split: sum.splits outcome.splits option.splits prod.splits if_splits
      dest!: updateClusterState_ext discoverCluster_ext UpdateCluster_ext attachNodes_ext
        InstallCluster_ext)

lemma provisionCallback_install:
  assumes "err = None" "pcr_State lr \<noteq> ProvisionProgress_ERROR"
    and u: "updateClusterState m org cid ClusterState_PROVISIONED w = (None, w2)"
    and d: "discoverCluster m rid (pcr_RawKubeConfig lr) (pcr_Hostname lr) w2
              = (Returned (Inr discovered), w3)"
    and run: "provisionCallback m rid org cid (Some lr) err w = (r, w')"
  shows "\<exists>xs. calls w' = calls w @ xs
           \<and> take 1 (installRequestsOf xs) = [provisionInstallRequest rid org cid lr]"
proof -
  from updateClusterState_ext [OF u] obtain xs
    where xs: "calls w2 = calls w @ Call_UpdateCluster
             (stateUpdateRequest org cid ClusterState_PROVISIONED) # xs"
          "installRequestsOf xs = []"
    by blast
  from discoverCluster_ext [OF d] obtain ys
    where ys: "calls w3 = calls w2 @ ys" "installRequestsOf ys = []"
    by blast
  from assms xs ys show ?thesis
    by (auto simp: provisionCallback_def Let_def provisionInstallRequest_def
        split: outcome.splits sum.splits prod.splits
        dest!: UpdateCluster_ext attachNodes_ext InstallCluster_ext)
qed

text \<open>The calls of the uninstall callback and of \<^verbatim>\<open>Decommission\<close>, exactly.\<close>

lemma uninstallCallback_calls:
  "calls (uninstallCallback m rid org cid (Some resp) err w) =
     calls w @
       (let req = stateUpdateRequest org cid
                    (if err \<noteq> None \<or> op_Status resp = OpStatus_FAILED
                     then ClusterState_FAILURE else ClusterState_PROVISIONED)
        in Call_UpdateCluster req #
             (case clusterClient_UpdateCluster m (calls w) req of
                Inl e \<Rightarrow> [] | Inr c \<Rightarrow> [Call_SendEvents req]))"
  by (simp add: uninstallCallback_def updateClusterState_def stateUpdateRequest_def Let_def
      split: option.splits sum.splits)

lemma Decommission_calls:
  "calls (Decommission m request w) =
     calls w @ Call_DecommissionCluster request #
       (case decommissionClient_DecommissionCluster m (calls w) request of
          Some e \<Rightarrow> []
        | None \<Rightarrow> [Launch_DecommissionerMonitor (dr_ClusterId request) (dr_RequestId request)])"
  by (cases request) (simp add: Decommission_def Let_def split: option.splits)

text \<open>
  \<^verbatim>\<open>canUninstallCluster\<close> when both of its reads succeed: two calls, and the verdict.
\<close>

lemma canUninstallCluster_reads:
  assumes "clusterClient_GetCluster m (calls w)
             \<lparr>cid_OrganizationId = org, cid_ClusterId = cid\<rparr> = Inr cluster"
    and "appClient_ListAppInstances m
           (calls w @ [Call_GetCluster \<lparr>cid_OrganizationId = org, cid_ClusterId = cid\<rparr>]) org
         = Inr instances"
  shows "canUninstallCluster m org cid w =
     (if serviceDeployedOn org cid instances then
        Some (NewFailedPreconditionError ''target cluster has deployed applications'')
      else if c_ClusterStatus cluster \<noteq> ClusterStatus_ONLINE_CORDON then
        Some (NewFailedPreconditionError ''target cluster must be online and cordoned'')
      else None,
      record_call (Call_ListAppInstances org)
        (record_call (Call_GetCluster \<lparr>cid_OrganizationId = org, cid_ClusterId = cid\<rparr>) w))"
  using assms
  by (auto simp: canUninstallCluster_def clusterHasApps_def Let_def serviceDeployedOn_def
      list_ex_iff)

lemma installEntriesOf_append [simp]:
  "installEntriesOf (xs @ ys) = installEntriesOf xs @ installEntriesOf ys"
  by (induction xs rule: installEntriesOf.induct) simp_all

lemma sentToInstaller_append [simp]:
  "sentToInstaller (xs @ ys) = sentToInstaller xs @ sentToInstaller ys"
  by (induction xs rule: sentToInstaller.induct) simp_all

lemma monitorsOf_append [simp]:
  "monitorsOf (xs @ ys) = monitorsOf xs @ monitorsOf ys"
  by (induction xs rule: monitorsOf.induct) simp_all

lemma no_install_requests:
  "installRequestsOf xs = [] \<Longrightarrow> installEntriesOf xs = [] \<and> sentToInstaller xs = []"
  by (induction xs rule: installRequestsOf.induct) simp_all

text \<open>No operation below \<^verbatim>\<open>InstallCluster\<close> launches a monitor.\<close>

lemma updateClusterState_quiet:
  "updateClusterState m org cid st w = (r, w') \<Longrightarrow>
   \<exists>xs. calls w' = calls w @ xs \<and> installRequestsOf xs = [] \<and> monitorsOf xs = []"
  by (auto simp: updateClusterState_def Let_def split: sum.splits option.splits)

lemma UpdateCluster_quiet:
  "UpdateCluster m request w = (r, w') \<Longrightarrow>
   \<exists>xs. calls w' = calls w @ xs \<and> installRequestsOf xs = [] \<and> monitorsOf xs = []"
  by (auto simp: UpdateCluster_def Let_def split: sum.splits option.splits)

lemma getCluster_quiet:
  "getCluster m org cid w = (r, w') \<Longrightarrow>
   \<exists>xs. calls w' = calls w @ xs \<and> installRequestsOf xs = [] \<and> monitorsOf xs = []"
  by (auto simp: getCluster_def Let_def)

lemma discoverCluster_quiet:
  "discoverCluster m rid kubeConfig hostname w = (r, w') \<Longrightarrow>
   \<exists>xs. calls w' = calls w @ xs \<and> installRequestsOf xs = [] \<and> monitorsOf xs = []"
  by (auto simp: discoverCluster_def Let_def split: sum.splits option.splits)

lemma attachNodes_loop_quiet:
  "attachNodes_loop m rid org cid ns w = (r, w') \<Longrightarrow>
   \<exists>xs. calls w' = calls w @ xs \<and> installRequestsOf xs = [] \<and> monitorsOf xs = []"
proof (induction ns arbitrary: w)
  case Nil
  then show ?case by simp
next
  case (Cons n ns)
  let ?add = "\<lparr>anr_RequestId = rid, anr_OrganizationId = org,
               anr_Ip = en_IP n, anr_Labels = en_Labels n\<rparr>"
  let ?w1 = "record_call (Call_AddNode ?add) w"
  show ?case
  proof (cases "nodesClient_AddNode m (calls w) ?add")
    case (Inl e)
    with Cons.prems show ?thesis by (auto simp: Let_def)
  next
    case (Inr added)
    let ?att = "\<lparr>atr_RequestId = rid, atr_OrganizationId = org,
                 atr_ClusterId = cid, atr_NodeId = n_NodeId added\<rparr>"
    show ?thesis
    proof (cases "nodesClient_AttachNode m (calls ?w1) ?att")
      case (Some e)
      with Cons.prems Inr show ?thesis by (auto simp: Let_def)
    next
      case None
      with Cons.prems Inr
      have "attachNodes_loop m rid org cid ns (record_call (Call_AttachNode ?att) ?w1) = (r, w')"
        by (simp add: Let_def)
      from Cons.IH [OF this] show ?thesis by auto
    qed
  qed
qed

lemma attachNodes_quiet:
  "attachNodes m rid org cid cl w = (r, w') \<Longrightarrow>
   \<exists>xs. calls w' = calls w @ xs \<and> installRequestsOf xs = [] \<and> monitorsOf xs = []"
  by (simp add: attachNodes_def attachNodes_loop_quiet)

lemma addClusterToSM_quiet:
  "addClusterToSM m rid org cl st w = (r, w') \<Longrightarrow>
   \<exists>xs. calls w' = calls w @ xs \<and> installRequestsOf xs = [] \<and> monitorsOf xs = []"
  by (auto simp: addClusterToSM_def Let_def
      split: sum.splits option.splits prod.splits
      dest!: updateClusterState_quiet attachNodes_quiet)

lemma getOrCreateProvisionedCluster_quiet:
  "getOrCreateProvisionedCluster m request w = (r, w') \<Longrightarrow>
   \<exists>xs. calls w' = calls w @ xs \<and> installRequestsOf xs = [] \<and> monitorsOf xs = []"
  by (auto simp: getOrCreateProvisionedCluster_def
      split: sum.splits outcome.splits prod.splits if_splits
      dest!: discoverCluster_quiet addClusterToSM_quiet getCluster_quiet)

lemma installEntryWorld_quiet:
  "\<exists>xs. calls (installEntryWorld m rid org cid lr discovered w3) = calls w3 @ xs
        \<and> installRequestsOf xs = [] \<and> monitorsOf xs = []"
  by (auto simp: installEntryWorld_def Let_def
      split: sum.splits prod.splits dest!: UpdateCluster_quiet attachNodes_quiet)

text \<open>
  \<^verbatim>\<open>InstallCluster\<close>, after its entry: when the cluster it finds is provisioned and the
  state update succeeds, the request goes to the installer and a monitor is launched if
  the installer accepts; in every other case nothing is sent and nothing is launched.
\<close>

lemma InstallCluster_proceeds:
  assumes "getOrCreateProvisionedCluster m req (record_call (Invoke_InstallCluster req) v)
             = (Returned (Inr cluster), v1)"
    and "\<not> ir_InstallBaseSystem req" and "c_State cluster = ClusterState_PROVISIONED"
    and "updateClusterState m (ir_OrganizationId req) (c_ClusterId cluster)
           ClusterState_INSTALL_IN_PROGRESS v1 = (None, v2)"
  shows "InstallCluster m req v =
     (case installerClient_InstallCluster m (calls v2)
             (req\<lparr>ir_ClusterId := c_ClusterId cluster\<rparr>) of
        Inl iErr \<Rightarrow>
          (Returned (Inl iErr),
           record_call (Call_InstallCluster (req\<lparr>ir_ClusterId := c_ClusterId cluster\<rparr>)) v2)
      | Inr response \<Rightarrow>
          (Returned (Inr response),
           record_call (Launch_InstallerMonitor
                          \<lparr>im_clusterID = c_ClusterId cluster, im_response = response,
                           im_callback = Some Manager_installCallback,
                           im_decommissionCallback = None\<rparr>)
             (record_call (Call_InstallCluster (req\<lparr>ir_ClusterId := c_ClusterId cluster\<rparr>))
                v2)))"
  using assms by (simp add: InstallCluster_def Let_def split: sum.splits)

lemma InstallCluster_stops:
  assumes "getOrCreateProvisionedCluster m req (record_call (Invoke_InstallCluster req) v)
             = (res, v1)"
    and "\<forall>cluster v2.
           res = Returned (Inr cluster) \<and> c_State cluster = ClusterState_PROVISIONED
           \<and> updateClusterState m (ir_OrganizationId req) (c_ClusterId cluster)
                ClusterState_INSTALL_IN_PROGRESS v1 = (None, v2)
           \<longrightarrow> ir_InstallBaseSystem req"
    and "InstallCluster m req v = (r, v')"
  shows "(\<forall>response. r \<noteq> Returned (Inr response))
     \<and> (\<exists>xs. calls v' = calls v @ Invoke_InstallCluster req # xs
              \<and> installRequestsOf xs = [] \<and> monitorsOf xs = [])"
  using assms
  by (auto simp: InstallCluster_def Let_def
      split: sum.splits outcome.splits option.splits prod.splits if_splits
      dest!: getOrCreateProvisionedCluster_quiet updateClusterState_quiet)

text \<open>
  After a successful provisioning, state update and discovery, the provision callback is
  \<^verbatim>\<open>InstallCluster\<close> on its own install request, with a failure logged.
\<close>

lemma provisionCallback_enters:
  assumes "err = None" "pcr_State lr \<noteq> ProvisionProgress_ERROR"
    and "updateClusterState m org cid ClusterState_PROVISIONED w = (None, w2)"
    and "discoverCluster m rid (pcr_RawKubeConfig lr) (pcr_Hostname lr) w2
           = (Returned (Inr discovered), w3)"
  shows "provisionCallback m rid org cid (Some lr) err w =
     (case InstallCluster m (provisionInstallRequest rid org cid lr)
             (installEntryWorld m rid org cid lr discovered w3) of
        (Panicked, w8) \<Rightarrow> (Panicked, w8)
      | (Returned (Inl icErr), w8) \<Rightarrow>
          (Returned (), log_error ''error creating install request after provisioning'' w8)
      | (Returned (Inr response), w8) \<Rightarrow> (Returned (), w8))"
  using assms
  by (simp add: provisionCallback_def installEntryWorld_def provisionInstallRequest_def
      Let_def split_beta)

text \<open>
  When provisioning failed, or the state update or the discovery did, the provision
  callback adds no install request and launches no monitor.
\<close>

lemma provisionCallback_failed_quiet:
  "err \<noteq> None \<or> pcr_State lr = ProvisionProgress_ERROR \<Longrightarrow>
   provisionCallback m rid org cid (Some lr) err w = (r, w') \<Longrightarrow>
   \<exists>xs. calls w' = calls w @ xs \<and> installRequestsOf xs = [] \<and> monitorsOf xs = []"
  by (auto simp: provisionCallback_def Let_def
      split: option.splits prod.splits if_splits
      dest!: updateClusterState_quiet)

lemma provisionCallback_update_failed_quiet:
  assumes "err = None" "pcr_State lr \<noteq> ProvisionProgress_ERROR"
    and u: "updateClusterState m org cid ClusterState_PROVISIONED w = (Some e, w2)"
    and run: "provisionCallback m rid org cid (Some lr) err w = (r, w')"
  shows "\<exists>xs. calls w' = calls w @ xs \<and> installRequestsOf xs = [] \<and> monitorsOf xs = []"
proof -
  from updateClusterState_quiet [OF u] obtain xs
    where "calls w2 = calls w @ xs" and "installRequestsOf xs = []" and "monitorsOf xs = []"
    by blast
  with assms show ?thesis
    by (auto simp: provisionCallback_def Let_def)
qed

lemma provisionCallback_discover_failed_quiet:
  assumes "err = None" "pcr_State lr \<noteq> ProvisionProgress_ERROR"
    and u: "updateClusterState m org cid ClusterState_PROVISIONED w = (None, w2)"
    and d: "discoverCluster m rid (pcr_RawKubeConfig lr) (pcr_Hostname lr) w2 = (res, w3)"
    and n: "\<forall>x. res \<noteq> Returned (Inr x)"
    and run: "provisionCallback m rid org cid (Some lr) err w = (r, w')"
  shows "\<exists>xs. calls w' = calls w @ xs \<and> installRequestsOf xs = [] \<and> monitorsOf xs = []"
proof -
  from updateClusterState_quiet [OF u] obtain xs
    where xs: "calls w2 = calls w @ xs" "installRequestsOf xs = []" "monitorsOf xs = []"
    by blast
  from discoverCluster_quiet [OF d] obtain ys
    where ys: "calls w3 = calls w2 @ ys" "installRequestsOf ys = []" "monitorsOf ys = []"
    by blast
  from assms xs ys show ?thesis
    by (auto simp: provisionCallback_def Let_def split: outcome.splits sum.splits)
qed

text \<open>
  After a successful provisioning, state update and discovery: what reaches the installer
  and which monitor is launched, by what \<^verbatim>\<open>InstallCluster\<close> finds.
\<close>

lemma provisionCallback_installs:
  assumes ok: "err = None" "pcr_State lr \<noteq> ProvisionProgress_ERROR"
    and u: "updateClusterState m org cid ClusterState_PROVISIONED w = (None, w2)"
    and d: "discoverCluster m rid (pcr_RawKubeConfig lr) (pcr_Hostname lr) w2
              = (Returned (Inr discovered), w3)"
    and run: "provisionCallback m rid org cid (Some lr) err w = (r, w')"
    and l: "getOrCreateProvisionedCluster m (provisionInstallRequest rid org cid lr)
              (record_call (Invoke_InstallCluster (provisionInstallRequest rid org cid lr))
                 (installEntryWorld m rid org cid lr discovered w3)) = (lres, v1)"
  shows "installEntriesOf (newCalls w w') = [provisionInstallRequest rid org cid lr]
     \<and> (case lres of
          Returned (Inr cluster) \<Rightarrow>
            (let stateUpd = updateClusterState m org (c_ClusterId cluster)
                              ClusterState_INSTALL_IN_PROGRESS v1;
                 sent = (provisionInstallRequest rid org cid lr)
                          \<lparr>ir_ClusterId := c_ClusterId cluster\<rparr>
             in if c_State cluster = ClusterState_PROVISIONED \<and> fst stateUpd = None
                then sentToInstaller (newCalls w w') = [sent]
                     \<and> monitorsOf (newCalls w w')
                         = (case installerClient_InstallCluster m (calls (snd stateUpd)) sent of
                              Inl iErr \<Rightarrow> []
                            | Inr response \<Rightarrow>
                                [\<lparr>im_clusterID = c_ClusterId cluster, im_response = response,
                                  im_callback = Some Manager_installCallback,
                                  im_decommissionCallback = None\<rparr>])
                else sentToInstaller (newCalls w w') = [] \<and> monitorsOf (newCalls w w') = [])
        | _ \<Rightarrow> sentToInstaller (newCalls w w') = [] \<and> monitorsOf (newCalls w w') = [])"
proof -
  let ?req = "provisionInstallRequest rid org cid lr"
  let ?entry = "installEntryWorld m rid org cid lr discovered w3"
  have base: "ir_OrganizationId ?req = org" "\<not> ir_InstallBaseSystem ?req"
    by (simp_all add: provisionInstallRequest_def)
  from updateClusterState_quiet [OF u] obtain xs2
    where x2: "calls w2 = calls w @ xs2" "installRequestsOf xs2 = []" "monitorsOf xs2 = []"
    by blast
  from discoverCluster_quiet [OF d] obtain xs3
    where x3: "calls w3 = calls w2 @ xs3" "installRequestsOf xs3 = []" "monitorsOf xs3 = []"
    by blast
  from installEntryWorld_quiet [of m rid org cid lr discovered w3] obtain xs4
    where x4: "calls ?entry = calls w3 @ xs4" "installRequestsOf xs4 = []" "monitorsOf xs4 = []"
    by blast
  from getOrCreateProvisionedCluster_quiet [OF l] obtain ys
    where y: "calls v1 = calls ?entry @ Invoke_InstallCluster ?req # ys"
      "installRequestsOf ys = []" "monitorsOf ys = []"
    by auto
  obtain res w8 where ic: "InstallCluster m ?req ?entry = (res, w8)"
    by (cases "InstallCluster m ?req ?entry")
  from provisionCallback_enters [OF ok u d] run ic have same: "calls w' = calls w8"
    by (auto split: outcome.splits sum.splits)
  note quiet = no_install_requests [OF x2(2)] no_install_requests [OF x3(2)]
    no_install_requests [OF x4(2)] no_install_requests [OF y(2)]
  have stop: "installEntriesOf (newCalls w w') = [?req]
      \<and> sentToInstaller (newCalls w w') = [] \<and> monitorsOf (newCalls w w') = []"
    if "\<forall>cluster v2.
           lres = Returned (Inr cluster) \<and> c_State cluster = ClusterState_PROVISIONED
           \<and> updateClusterState m (ir_OrganizationId ?req) (c_ClusterId cluster)
                ClusterState_INSTALL_IN_PROGRESS v1 = (None, v2)
           \<longrightarrow> ir_InstallBaseSystem ?req"
  proof -
    from InstallCluster_stops [OF l that ic] obtain zs
      where "calls w8 = calls ?entry @ Invoke_InstallCluster ?req # zs"
        and "installRequestsOf zs = []" and "monitorsOf zs = []"
      by blast
    with same x2 x3 x4 quiet no_install_requests [of zs] show ?thesis
      by simp
  qed
  show ?thesis
  proof (cases lres)
    case Panicked
    with stop show ?thesis by simp
  next
    case (Returned res')
    show ?thesis
    proof (cases res')
      case (Inl e)
      with Returned stop show ?thesis by simp
    next
      case (Inr cluster)
      obtain e2 v2
        where su: "updateClusterState m org (c_ClusterId cluster)
                     ClusterState_INSTALL_IN_PROGRESS v1 = (e2, v2)"
        by (cases "updateClusterState m org (c_ClusterId cluster)
                     ClusterState_INSTALL_IN_PROGRESS v1")
      show ?thesis
      proof (cases "c_State cluster = ClusterState_PROVISIONED \<and> e2 = None")
        case False
        with Returned Inr su base have "\<forall>cluster v2.
           lres = Returned (Inr cluster) \<and> c_State cluster = ClusterState_PROVISIONED
           \<and> updateClusterState m (ir_OrganizationId ?req) (c_ClusterId cluster)
                ClusterState_INSTALL_IN_PROGRESS v1 = (None, v2)
           \<longrightarrow> ir_InstallBaseSystem ?req"
          by auto
        from stop [OF this] Returned Inr su False show ?thesis
          by (auto simp: Let_def)
      next
        case True
        let ?sent = "?req\<lparr>ir_ClusterId := c_ClusterId cluster\<rparr>"
        from True su base
        have su': "updateClusterState m (ir_OrganizationId ?req) (c_ClusterId cluster)
                     ClusterState_INSTALL_IN_PROGRESS v1 = (None, v2)"
          by simp
        from updateClusterState_quiet [OF su'] obtain zs
          where z: "calls v2 = calls v1 @ zs" "installRequestsOf zs = []" "monitorsOf zs = []"
          by blast
        from l Returned Inr
        have l': "getOrCreateProvisionedCluster m ?req
                    (record_call (Invoke_InstallCluster ?req) ?entry)
                  = (Returned (Inr cluster), v1)"
          by simp
        from True have st: "c_State cluster = ClusterState_PROVISIONED" by simp
        note eq = InstallCluster_proceeds [OF l' base(2) st su']
        have "calls w8 = calls v2 @ Call_InstallCluster ?sent #
            (case installerClient_InstallCluster m (calls v2) ?sent of
               Inl iErr \<Rightarrow> []
             | Inr response \<Rightarrow>
                 [Launch_InstallerMonitor
                    \<lparr>im_clusterID = c_ClusterId cluster, im_response = response,
                     im_callback = Some Manager_installCallback,
                     im_decommissionCallback = None\<rparr>])"
          using eq ic by (auto split: sum.splits)
        with same x2 x3 x4 y z quiet no_install_requests [OF z(2)]
        have "installEntriesOf (newCalls w w') = [?req]
          \<and> sentToInstaller (newCalls w w') = [?sent]
          \<and> monitorsOf (newCalls w w')
              = (case installerClient_InstallCluster m (calls v2) ?sent of
                   Inl iErr \<Rightarrow> []
                 | Inr response \<Rightarrow>
                     [\<lparr>im_clusterID = c_ClusterId cluster, im_response = response,
                       im_callback = Some Manager_installCallback,
                       im_decommissionCallback = None\<rparr>])"
          by (simp split: sum.splits)
        with Returned Inr su True show ?thesis
          by (simp add: Let_def)
      qed
    qed
  qed
qed

section \<open>Validation of requests: what is proved\<close>

text \<open>
  C7. An install request is accepted exactly when the organization id is set, cluster id
  and request id are empty, and exactly one credential form is supplied: the kubeconfig
  alone, with username, private key and nodes all absent, or the username with a private
  key and at least one node and no kubeconfig. Every rejection is an invalid-argument
  error; in particular both forms together, neither form, a username without a private
  key and a username without nodes are rejected.
\<close>

theorem C7_install_credential_forms:
  "(ValidInstallRequest r = None \<longleftrightarrow>
      ir_OrganizationId r \<noteq> [] \<and> ir_ClusterId r = [] \<and> ir_RequestId r = [] \<and>
      ((ir_KubeConfigRaw r \<noteq> [] \<and> ir_Username r = [] \<and> ir_PrivateKey r = []
          \<and> ir_Nodes r = []) \<or>
       (ir_KubeConfigRaw r = [] \<and> ir_Username r \<noteq> [] \<and> ir_PrivateKey r \<noteq> []
          \<and> ir_Nodes r \<noteq> [])))
   \<and> (ValidInstallRequest r \<noteq> None \<longrightarrow> isInvalidArgument (ValidInstallRequest r))
   \<and> (ir_KubeConfigRaw r \<noteq> [] \<and> ir_Username r \<noteq> []
        \<longrightarrow> isInvalidArgument (ValidInstallRequest r))
   \<and> (ir_KubeConfigRaw r = [] \<and> ir_Username r = []
        \<longrightarrow> isInvalidArgument (ValidInstallRequest r))
   \<and> (ir_Username r \<noteq> [] \<and> (ir_PrivateKey r = [] \<or> ir_Nodes r = [])
        \<longrightarrow> isInvalidArgument (ValidInstallRequest r))"
  by (auto simp: ValidInstallRequest_def Let_def isInvalidArgument_def
      NewInvalidArgumentError_def)

theorem C7_install_credential_forms_witness:
  "ValidInstallRequest installWithKubeConfig = None
   \<and> ValidInstallRequest installWithUsername = None
   \<and> ir_KubeConfigRaw installWithBoth \<noteq> [] \<and> ir_Username installWithBoth \<noteq> []
   \<and> ValidInstallRequest installWithBoth \<noteq> None
   \<and> isInvalidArgument (ValidInstallRequest installWithBoth)"
  using C7_install_credential_forms [of installWithKubeConfig]
    C7_install_credential_forms [of installWithUsername]
    C7_install_credential_forms [of installWithBoth]
  by (simp add: installWithKubeConfig_def installWithUsername_def installWithBoth_def
      isInvalidArgument_def)




text \<open>
  C6, as stated, fails for uninstall: an uninstall request for the Azure platform, which
  carries neither Azure credentials nor Azure options, is accepted.
\<close>

theorem C6_uninstall_azure_counterexample:
  "ur_TargetPlatform uninstallOnAzure = Platform_AZURE
   \<and> ValidUninstallClusterRequest uninstallOnAzure = None"
  by (simp add: uninstallOnAzure_def ValidUninstallClusterRequest_def)

text \<open>
  C6, amended. For provision, scale and decommission requests: a request for the Azure
  platform whose Azure credentials or Azure options are missing is rejected with an
  invalid-argument error, and for any other platform the verdict does not depend on the
  credentials and options at all. Validation of an uninstall request does not look at the
  target platform.
\<close>

theorem C6_azure_requirements:
  "(pr_TargetPlatform p = Platform_AZURE
      \<and> (pr_AzureCredentials p = None \<or> pr_AzureOptions p = None)
      \<longrightarrow> isInvalidArgument (ValidProvisionClusterRequest p))
   \<and> (sr_TargetPlatform s = Platform_AZURE
        \<and> (sr_AzureCredentials s = None \<or> sr_AzureOptions s = None)
        \<longrightarrow> isInvalidArgument (ValidScaleClusterRequest s))
   \<and> (dr_TargetPlatform d = Platform_AZURE
        \<and> (dr_AzureCredentials d = None \<or> dr_AzureOptions d = None)
        \<longrightarrow> isInvalidArgument (ValidDecommissionClusterRequest d))
   \<and> (pr_TargetPlatform p \<noteq> Platform_AZURE
        \<longrightarrow> ValidProvisionClusterRequest (p\<lparr>pr_AzureCredentials := cr, pr_AzureOptions := op\<rparr>)
            = ValidProvisionClusterRequest p)
   \<and> (sr_TargetPlatform s \<noteq> Platform_AZURE
        \<longrightarrow> ValidScaleClusterRequest (s\<lparr>sr_AzureCredentials := cr, sr_AzureOptions := op\<rparr>)
            = ValidScaleClusterRequest s)
   \<and> (dr_TargetPlatform d \<noteq> Platform_AZURE
        \<longrightarrow> ValidDecommissionClusterRequest
              (d\<lparr>dr_AzureCredentials := cr, dr_AzureOptions := op\<rparr>)
            = ValidDecommissionClusterRequest d)
   \<and> ValidUninstallClusterRequest (u\<lparr>ur_TargetPlatform := pl\<rparr>)
       = ValidUninstallClusterRequest u"
proof (intro conjI impI)
  assume "pr_TargetPlatform p = Platform_AZURE
      \<and> (pr_AzureCredentials p = None \<or> pr_AzureOptions p = None)"
  then show "isInvalidArgument (ValidProvisionClusterRequest p)"
    by (auto simp: ValidProvisionClusterRequest_def isInvalidArgument_def
        NewInvalidArgumentError_def)
next
  assume "sr_TargetPlatform s = Platform_AZURE
      \<and> (sr_AzureCredentials s = None \<or> sr_AzureOptions s = None)"
  then show "isInvalidArgument (ValidScaleClusterRequest s)"
    by (auto simp: ValidScaleClusterRequest_def isInvalidArgument_def
        NewInvalidArgumentError_def azureOptionsMissing_def)
next
  assume "dr_TargetPlatform d = Platform_AZURE
      \<and> (dr_AzureCredentials d = None \<or> dr_AzureOptions d = None)"
  then show "isInvalidArgument (ValidDecommissionClusterRequest d)"
    by (auto simp: ValidDecommissionClusterRequest_def isInvalidArgument_def
        NewInvalidArgumentError_def azureOptionsMissing_def)
next
  assume "pr_TargetPlatform p \<noteq> Platform_AZURE"
  then show "ValidProvisionClusterRequest (p\<lparr>pr_AzureCredentials := cr, pr_AzureOptions := op\<rparr>)
      = ValidProvisionClusterRequest p"
    by (simp add: ValidProvisionClusterRequest_def)
next
  assume "sr_TargetPlatform s \<noteq> Platform_AZURE"
  then show "ValidScaleClusterRequest (s\<lparr>sr_AzureCredentials := cr, sr_AzureOptions := op\<rparr>)
      = ValidScaleClusterRequest s"
    by (simp add: ValidScaleClusterRequest_def)
next
  assume "dr_TargetPlatform d \<noteq> Platform_AZURE"
  then show "ValidDecommissionClusterRequest
        (d\<lparr>dr_AzureCredentials := cr, dr_AzureOptions := op\<rparr>)
      = ValidDecommissionClusterRequest d"
    by (simp add: ValidDecommissionClusterRequest_def)
next
  show "ValidUninstallClusterRequest (u\<lparr>ur_TargetPlatform := pl\<rparr>)
      = ValidUninstallClusterRequest u"
    by (simp add: ValidUninstallClusterRequest_def)
qed

theorem C6_azure_requirements_witness:
  "isInvalidArgument
     (ValidProvisionClusterRequest (provisionWithRequestId\<lparr>pr_AzureOptions := None\<rparr>))
   \<and> isInvalidArgument (ValidScaleClusterRequest scaleOnAzure)
   \<and> isInvalidArgument (ValidDecommissionClusterRequest decommissionOnAzure)
   \<and> ValidProvisionClusterRequest
        (provisionWithRequestId\<lparr>pr_TargetPlatform := Platform_other 0,
           pr_AzureCredentials := None, pr_AzureOptions := None\<rparr>) = None
   \<and> ValidScaleClusterRequest (scaleOnAzure\<lparr>sr_TargetPlatform := Platform_other 0\<rparr>) = None
   \<and> ValidDecommissionClusterRequest
        (decommissionOnAzure\<lparr>dr_TargetPlatform := Platform_other 0\<rparr>) = None
   \<and> ValidUninstallClusterRequest (uninstallOnAzure\<lparr>ur_TargetPlatform := Platform_other 0\<rparr>)
       = None"
  using C6_azure_requirements
      [where p = "provisionWithRequestId\<lparr>pr_AzureOptions := None\<rparr>" and s = scaleOnAzure
        and d = decommissionOnAzure and u = uninstallOnAzure and pl = "Platform_other 0"]
    C6_azure_requirements
      [where p = "provisionWithRequestId\<lparr>pr_TargetPlatform := Platform_other 0\<rparr>"
        and s = "scaleOnAzure\<lparr>sr_TargetPlatform := Platform_other 0\<rparr>"
        and d = "decommissionOnAzure\<lparr>dr_TargetPlatform := Platform_other 0\<rparr>"
        and cr = None and op = None and u = uninstallOnAzure and pl = "Platform_other 0"]
  by (simp add: provisionWithRequestId_def scaleOnAzure_def decommissionOnAzure_def
      uninstallOnAzure_def ValidProvisionClusterRequest_def ValidScaleClusterRequest_def
      ValidDecommissionClusterRequest_def ValidUninstallClusterRequest_def)

text \<open>
  C10. An update-node request whose node id is not empty is rejected with an
  invalid-argument error, and when its organization id is set the message is the one that
  says the node id cannot be empty. A request with an organization id and an empty node id
  is accepted, provided that the labels are valid when labels are to be added.
\<close>

theorem C10_update_node_id:
  "(unr_NodeId r \<noteq> [] \<longrightarrow> isInvalidArgument (ValidUpdateNodeRequest chk r))
   \<and> (unr_OrganizationId r \<noteq> [] \<and> unr_NodeId r \<noteq> []
        \<longrightarrow> ValidUpdateNodeRequest chk r
            = Some (NewInvalidArgumentError ''node_id cannot be empty''))
   \<and> (unr_OrganizationId r \<noteq> [] \<and> unr_NodeId r = []
        \<and> (unr_AddLabels r \<longrightarrow> ValidLabels chk (unr_Labels r) = None)
        \<longrightarrow> ValidUpdateNodeRequest chk r = None)"
  by (simp add: ValidUpdateNodeRequest_def isInvalidArgument_def NewInvalidArgumentError_def
      emptyNodeId_def)

theorem C10_update_node_id_witness:
  "isInvalidArgument (ValidUpdateNodeRequest noBlankLabelValue (updateNodeNoId\<lparr>unr_NodeId := ''n1''\<rparr>))
   \<and> ValidUpdateNodeRequest noBlankLabelValue (updateNodeNoId\<lparr>unr_NodeId := ''n1''\<rparr>)
       = Some (NewInvalidArgumentError ''node_id cannot be empty'')
   \<and> ValidLabels noBlankLabelValue (unr_Labels updateNodeNoId) = None
   \<and> ValidUpdateNodeRequest noBlankLabelValue updateNodeNoId = None"
  using C10_update_node_id [of "updateNodeNoId\<lparr>unr_NodeId := ''n1''\<rparr>" noBlankLabelValue]
    C10_update_node_id [of updateNodeNoId noBlankLabelValue]
  by (simp add: updateNodeNoId_def noBlankLabelValue_def isInvalidArgument_def
      NewInvalidArgumentError_def)


section \<open>State transitions and the event bus: what is proved\<close>

lemmas manager_defs =
  reliableManager_def busDownManager_def unreachableManager_def uncordonedManager_def
  failedClusterManager_def world0_def cluster1_def node1_def discovered1_def response1_def
  provisioned1_def busError_def discoveryError_def

lemmas run_defs =
  updateClusterState_def UpdateCluster_def getCluster_def discoverCluster_def
  attachNodes_def addClusterToSM_def getOrCreateProvisionedCluster_def InstallCluster_def
  installCallback_def provisionCallback_def uninstallCallback_def clusterHasApps_def
  canUninstallCluster_def Uninstall_def Decommission_def InstallerMonitor_complete_def
  invokeCallback_def invokeDecommissionCallback_def record_call_def log_error_def
  log_warn_def newCalls_def newLogs_def Let_def stateUpdateRequest_def

text \<open>
  C1, as stated, fails: with a registry that accepts the write and a bus that refuses the
  event, \<^verbatim>\<open>updateClusterState\<close> and \<^verbatim>\<open>UpdateCluster\<close> both return the error of the bus
  instead of success.
\<close>

theorem C1_publish_failure_counterexample:
  "clusterClient_UpdateCluster busDownManager (calls world0)
       (stateUpdateRequest ''o1'' ''c1'' ClusterState_INSTALLED) = Inr cluster1
   \<and> fst (updateClusterState busDownManager ''o1'' ''c1'' ClusterState_INSTALLED world0)
       = Some busError
   \<and> clusterClient_UpdateCluster busDownManager (calls world0) hostnameUpdate1 = Inr cluster1
   \<and> fst (UpdateCluster busDownManager hostnameUpdate1 world0) = Inl busError"
  by (simp add: manager_defs run_defs)

text \<open>
  C1, amended. When the write to the registry succeeds and the publication on the bus
  fails, \<^verbatim>\<open>updateClusterState\<close> and \<^verbatim>\<open>UpdateCluster\<close> log the failure and return the error
  of the bus to their caller. They make the registry call and the bus call and nothing
  else: the write is not taken back.
\<close>

theorem C1_publish_failure_returned:
  assumes "clusterClient_UpdateCluster m (calls w) (stateUpdateRequest org cid st) = Inr c"
      and "busManager_SendEvents m
             (calls w @ [Call_UpdateCluster (stateUpdateRequest org cid st)])
             (stateUpdateRequest org cid st) = Some e"
      and "clusterClient_UpdateCluster m (calls w) request = Inr c'"
      and "busManager_SendEvents m (calls w @ [Call_UpdateCluster request]) request = Some e'"
  shows "fst (updateClusterState m org cid st w) = Some e
     \<and> newCalls w (snd (updateClusterState m org cid st w))
         = [Call_UpdateCluster (stateUpdateRequest org cid st),
            Call_SendEvents (stateUpdateRequest org cid st)]
     \<and> newLogs w (snd (updateClusterState m org cid st w))
         = [LogError ''error in the bus when sending an update cluster request'']
     \<and> fst (UpdateCluster m request w) = Inl e'
     \<and> newCalls w (snd (UpdateCluster m request w))
         = [Call_UpdateCluster request, Call_SendEvents request]
     \<and> newLogs w (snd (UpdateCluster m request w))
         = [LogError ''error in the bus when sending an update cluster request'']"
  using assms
  by (simp add: updateClusterState_def UpdateCluster_def stateUpdateRequest_def Let_def
      newLogs_def newCalls_def)

theorem C1_publish_failure_returned_witness:
  "clusterClient_UpdateCluster busDownManager (calls world0)
       (stateUpdateRequest ''o1'' ''c1'' ClusterState_INSTALLED) = Inr cluster1
   \<and> busManager_SendEvents busDownManager
        (calls world0 @ [Call_UpdateCluster (stateUpdateRequest ''o1'' ''c1'' ClusterState_INSTALLED)])
        (stateUpdateRequest ''o1'' ''c1'' ClusterState_INSTALLED) = Some busError
   \<and> fst (updateClusterState busDownManager ''o1'' ''c1'' ClusterState_INSTALLED world0)
       = Some busError
   \<and> newLogs world0
        (snd (updateClusterState busDownManager ''o1'' ''c1'' ClusterState_INSTALLED world0))
       = [LogError ''error in the bus when sending an update cluster request'']
   \<and> fst (UpdateCluster busDownManager hostnameUpdate1 world0) = Inl busError"
  using C1_publish_failure_returned [where m = busDownManager and w = world0
      and org = "''o1''" and cid = "''c1''" and st = ClusterState_INSTALLED
      and c = cluster1 and e = busError and request = hostnameUpdate1
      and c' = cluster1 and e' = busError]
  by (simp add: busDownManager_def reliableManager_def)

section \<open>Completion callbacks: what is proved\<close>

text \<open>
  C9. A completion callback (provision, install, scale, uninstall) that is given a nil
  final response returns at once: it makes no call at all, so no cluster or node state is
  written and no \<^verbatim>\<open>FAILURE\<close> is recorded, whether or not the watch error is nil. All it
  does is log the watch error when there is one.
\<close>

theorem C9_nil_response:
  "provisionCallback m rid org cid None err w
     = (Returned (), if err = None then w else log_error ''error callback received'' w)
   \<and> installCallback m rid org cid None err w
     = (if err = None then w else log_error ''error callback received'' w)
   \<and> scaleCallback m rid org cid None err w
     = (if err = None then w else log_error ''error callback received'' w)
   \<and> uninstallCallback m rid org cid None err w
     = (if err = None then w else log_error ''error callback received'' w)
   \<and> calls (snd (provisionCallback m rid org cid None err w)) = calls w
   \<and> calls (installCallback m rid org cid None err w) = calls w
   \<and> calls (scaleCallback m rid org cid None err w) = calls w
   \<and> calls (uninstallCallback m rid org cid None err w) = calls w"
  by (simp add: provisionCallback_def installCallback_def scaleCallback_def
      uninstallCallback_def)

theorem C9_nil_response_witness:
  "provisionCallback reliableManager ''r1'' ''o1'' ''c1'' None (Some discoveryError) world0
     = (Returned (), log_error ''error callback received'' world0)
   \<and> calls (snd (provisionCallback reliableManager ''r1'' ''o1'' ''c1'' None
                   (Some discoveryError) world0)) = []
   \<and> calls (installCallback reliableManager ''r1'' ''o1'' ''c1'' None
              (Some discoveryError) world0) = []
   \<and> calls (scaleCallback reliableManager ''r1'' ''o1'' ''c1'' None
              (Some discoveryError) world0) = []
   \<and> calls (uninstallCallback reliableManager ''r1'' ''o1'' ''c1'' None
              (Some discoveryError) world0) = []
   \<and> uninstallCallback reliableManager ''r1'' ''o1'' ''c1'' None None world0 = world0"
  using C9_nil_response [where m = reliableManager and rid = "''r1''" and org = "''o1''"
      and cid = "''c1''" and err = "Some discoveryError" and w = world0]
    C9_nil_response [where m = reliableManager and rid = "''r1''" and org = "''o1''"
      and cid = "''c1''" and err = None and w = world0]
  by (simp add: world0_def)

text \<open>
  C2, as stated, fails: provisioning succeeded, the callback wrote \<^verbatim>\<open>PROVISIONED\<close>, but
  the new cluster could not be reached for discovery, and the callback returned without
  any install request.
\<close>

theorem C2_discovery_fails_counterexample:
  "pcr_State provisioned1 \<noteq> ProvisionProgress_ERROR
   \<and> newCalls world0
        (snd (provisionCallback unreachableManager ''r1'' ''o1'' ''c1'' (Some provisioned1)
                None world0))
       = [Call_UpdateCluster (stateUpdateRequest ''o1'' ''c1'' ClusterState_PROVISIONED),
          Call_SendEvents (stateUpdateRequest ''o1'' ''c1'' ClusterState_PROVISIONED),
          Call_WriteTempFile ''kubeconfig'' ''r1'', Call_K8sConnect ''/tmp/r1'',
          Call_RemoveFile ''/tmp/r1'']
   \<and> installRequestsOf
        (newCalls world0
           (snd (provisionCallback unreachableManager ''r1'' ''o1'' ''c1'' (Some provisioned1)
                   None world0))) = []"
  by (simp add: manager_defs run_defs)

text \<open>
  C2, amended. Given a final response that is not nil, the first call of the provision
  callback writes the new state to the registry: \<^verbatim>\<open>FAILURE\<close> when there is a watch error
  or the progress state is \<^verbatim>\<open>ERROR\<close>, and \<^verbatim>\<open>PROVISIONED\<close> otherwise. After a failed
  provisioning, and after a successful one whose state update (registry write and
  publication) or discovery fails, \<^verbatim>\<open>InstallCluster\<close> is not entered, nothing is sent to
  the installer and no monitor is launched. After a successful provisioning whose state
  update and discovery succeed, \<^verbatim>\<open>InstallCluster\<close> is entered once, with the install
  request for that cluster. That request, with the cluster id of the cluster found,
  is sent to the installer exactly when \<^verbatim>\<open>InstallCluster\<close> finds the cluster in state
  \<^verbatim>\<open>PROVISIONED\<close> and its update to \<^verbatim>\<open>INSTALL_IN_PROGRESS\<close> succeeds, and an install monitor
  is launched exactly when the installer then accepts it; otherwise nothing is sent and
  no monitor is launched.
\<close>

theorem C2_provision_completion:
  "(let w' = snd (provisionCallback m rid org cid (Some lr) err w);
        failed = (err \<noteq> None \<or> pcr_State lr = ProvisionProgress_ERROR);
        afterUpdate = updateClusterState m org cid ClusterState_PROVISIONED w;
        discovery = discoverCluster m rid (pcr_RawKubeConfig lr) (pcr_Hostname lr)
                      (snd afterUpdate);
        ready = (fst afterUpdate = None \<and> discoveredOk (fst discovery));
        req = provisionInstallRequest rid org cid lr
    in take 1 (newCalls w w')
         = [Call_UpdateCluster (stateUpdateRequest org cid
              (if failed then ClusterState_FAILURE else ClusterState_PROVISIONED))]
       \<and> (failed
            \<longrightarrow> installRequestsOf (newCalls w w') = [] \<and> monitorsOf (newCalls w w') = [])
       \<and> (\<not> failed \<and> \<not> ready
            \<longrightarrow> installRequestsOf (newCalls w w') = [] \<and> monitorsOf (newCalls w w') = [])
       \<and> (\<not> failed \<and> ready
            \<longrightarrow> take 1 (installRequestsOf (newCalls w w')) = [req]
                \<and> installEntriesOf (newCalls w w') = [req])
       \<and> (\<not> failed \<and> fst afterUpdate = None \<and> fst discovery = Returned (Inr discovered)
            \<longrightarrow> (let entry = installEntryWorld m rid org cid lr discovered (snd discovery);
                     lookup = getOrCreateProvisionedCluster m req
                                (record_call (Invoke_InstallCluster req) entry)
                 in case fst lookup of
                      Returned (Inr cluster) \<Rightarrow>
                        (let stateUpd = updateClusterState m org (c_ClusterId cluster)
                                          ClusterState_INSTALL_IN_PROGRESS (snd lookup);
                             sent = req\<lparr>ir_ClusterId := c_ClusterId cluster\<rparr>
                         in if c_State cluster = ClusterState_PROVISIONED
                               \<and> fst stateUpd = None
                            then sentToInstaller (newCalls w w') = [sent]
                                 \<and> monitorsOf (newCalls w w')
                                     = (case installerClient_InstallCluster m
                                               (calls (snd stateUpd)) sent of
                                          Inl iErr \<Rightarrow> []
                                        | Inr response \<Rightarrow>
                                            [\<lparr>im_clusterID = c_ClusterId cluster,
                                              im_response = response,
                                              im_callback = Some Manager_installCallback,
                                              im_decommissionCallback = None\<rparr>])
                            else sentToInstaller (newCalls w w') = []
                                 \<and> monitorsOf (newCalls w w') = [])
                    | _ \<Rightarrow> sentToInstaller (newCalls w w') = []
                           \<and> monitorsOf (newCalls w w') = [])))"
proof -
  let ?req = "provisionInstallRequest rid org cid lr"
  obtain r w' where run: "provisionCallback m rid org cid (Some lr) err w = (r, w')"
    by (cases "provisionCallback m rid org cid (Some lr) err w")
  obtain e2 w2 where u: "updateClusterState m org cid ClusterState_PROVISIONED w = (e2, w2)"
    by (cases "updateClusterState m org cid ClusterState_PROVISIONED w")
  obtain res w3
    where d: "discoverCluster m rid (pcr_RawKubeConfig lr) (pcr_Hostname lr) w2 = (res, w3)"
    by (cases "discoverCluster m rid (pcr_RawKubeConfig lr) (pcr_Hostname lr) w2")
  let ?failed = "err \<noteq> None \<or> pcr_State lr = ProvisionProgress_ERROR"
  have first: "take 1 (newCalls w w')
      = [Call_UpdateCluster (stateUpdateRequest org cid
           (if ?failed then ClusterState_FAILURE else ClusterState_PROVISIONED))]"
    using provisionCallback_first [OF run] by auto
  have failed: "installRequestsOf (newCalls w w') = [] \<and> monitorsOf (newCalls w w') = []"
    if "?failed"
    using provisionCallback_failed_quiet [OF that run] by auto
  have notReady: "installRequestsOf (newCalls w w') = [] \<and> monitorsOf (newCalls w w') = []"
    if "\<not> ?failed" and "\<not> (e2 = None \<and> discoveredOk res)"
  proof (cases e2)
    case (Some e)
    with u have "updateClusterState m org cid ClusterState_PROVISIONED w = (Some e, w2)"
      by simp
    from provisionCallback_update_failed_quiet [OF _ _ this run] that(1) show ?thesis by auto
  next
    case None
    with that(2) have "\<forall>x. res \<noteq> Returned (Inr x)"
      by (auto simp: discoveredOk_def)
    moreover from None u
    have "updateClusterState m org cid ClusterState_PROVISIONED w = (None, w2)" by simp
    ultimately show ?thesis
      using provisionCallback_discover_failed_quiet [OF _ _ _ d _ run] that(1) by auto
  qed
  have installs: "installEntriesOf (newCalls w w') = [?req]
     \<and> (case fst (getOrCreateProvisionedCluster m ?req
                    (record_call (Invoke_InstallCluster ?req)
                       (installEntryWorld m rid org cid lr x w3))) of
          Returned (Inr cluster) \<Rightarrow>
            (let stateUpd = updateClusterState m org (c_ClusterId cluster)
                              ClusterState_INSTALL_IN_PROGRESS
                              (snd (getOrCreateProvisionedCluster m ?req
                                      (record_call (Invoke_InstallCluster ?req)
                                         (installEntryWorld m rid org cid lr x w3))));
                 sent = ?req\<lparr>ir_ClusterId := c_ClusterId cluster\<rparr>
             in if c_State cluster = ClusterState_PROVISIONED \<and> fst stateUpd = None
                then sentToInstaller (newCalls w w') = [sent]
                     \<and> monitorsOf (newCalls w w')
                         = (case installerClient_InstallCluster m (calls (snd stateUpd)) sent of
                              Inl iErr \<Rightarrow> []
                            | Inr response \<Rightarrow>
                                [\<lparr>im_clusterID = c_ClusterId cluster, im_response = response,
                                  im_callback = Some Manager_installCallback,
                                  im_decommissionCallback = None\<rparr>])
                else sentToInstaller (newCalls w w') = [] \<and> monitorsOf (newCalls w w') = [])
        | _ \<Rightarrow> sentToInstaller (newCalls w w') = [] \<and> monitorsOf (newCalls w w') = [])"
    if "\<not> ?failed" and "e2 = None" and "res = Returned (Inr x)" for x
  proof -
    from that u d
    have u': "updateClusterState m org cid ClusterState_PROVISIONED w = (None, w2)"
      and d': "discoverCluster m rid (pcr_RawKubeConfig lr) (pcr_Hostname lr) w2
                 = (Returned (Inr x), w3)"
      by simp_all
    from that(1) have ok: "err = None" "pcr_State lr \<noteq> ProvisionProgress_ERROR"
      by simp_all
    show ?thesis
      using provisionCallback_installs [OF ok u' d' run surjective_pairing] .
  qed
  have ready: "take 1 (installRequestsOf (newCalls w w')) = [?req]
      \<and> installEntriesOf (newCalls w w') = [?req]"
    if "\<not> ?failed" and "e2 = None" and "discoveredOk res"
  proof -
    from that(3) obtain x where x: "res = Returned (Inr x)"
      by (auto simp: discoveredOk_def split: outcome.splits sum.splits)
    with that u d have "updateClusterState m org cid ClusterState_PROVISIONED w = (None, w2)"
      and "discoverCluster m rid (pcr_RawKubeConfig lr) (pcr_Hostname lr) w2
             = (Returned (Inr x), w3)"
      by simp_all
    from provisionCallback_install [OF _ _ this run] that(1)
    have "take 1 (installRequestsOf (newCalls w w')) = [?req]" by auto
    with installs [OF that(1,2) x] show ?thesis by simp
  qed
  have eqs:
    "snd (provisionCallback m rid org cid (Some lr) err w) = w'"
    "fst (updateClusterState m org cid ClusterState_PROVISIONED w) = e2"
    "snd (updateClusterState m org cid ClusterState_PROVISIONED w) = w2"
    "fst (discoverCluster m rid (pcr_RawKubeConfig lr) (pcr_Hostname lr) w2) = res"
    "snd (discoverCluster m rid (pcr_RawKubeConfig lr) (pcr_Hostname lr) w2) = w3"
    by (simp_all add: run u d)
  show ?thesis
    unfolding Let_def eqs
    apply (intro conjI)
    subgoal by (rule first)
    subgoal using failed by blast
    subgoal using notReady by blast
    subgoal using ready by blast
    subgoal using installs [unfolded Let_def, of discovered] by blast
    done
qed

theorem C2_provision_completion_witness:
  "fst (updateClusterState reliableManager ''o1'' ''c1'' ClusterState_PROVISIONED world0) = None
   \<and> fst (discoverCluster reliableManager ''r1'' (pcr_RawKubeConfig provisioned1)
             (pcr_Hostname provisioned1)
             (snd (updateClusterState reliableManager ''o1'' ''c1''
                     ClusterState_PROVISIONED world0)))
       = Returned (Inr (discovered1\<lparr>ec_Hostname := ''c1.example.org''\<rparr>))
   \<and> take 1 (newCalls world0
        (snd (provisionCallback reliableManager ''r1'' ''o1'' ''c1'' (Some provisioned1)
                None world0)))
       = [Call_UpdateCluster (stateUpdateRequest ''o1'' ''c1'' ClusterState_PROVISIONED)]
   \<and> installEntriesOf (newCalls world0
        (snd (provisionCallback reliableManager ''r1'' ''o1'' ''c1'' (Some provisioned1)
                None world0)))
       = [provisionInstallRequest ''r1'' ''o1'' ''c1'' provisioned1]
   \<and> sentToInstaller (newCalls world0
        (snd (provisionCallback reliableManager ''r1'' ''o1'' ''c1'' (Some provisioned1)
                None world0)))
       = [provisionInstallRequest ''r1'' ''o1'' ''c1'' provisioned1]
   \<and> monitorsOf (newCalls world0
        (snd (provisionCallback reliableManager ''r1'' ''o1'' ''c1'' (Some provisioned1)
                None world0)))
       = [\<lparr>im_clusterID = ''c1'', im_response = response1,
           im_callback = Some Manager_installCallback, im_decommissionCallback = None\<rparr>]
   \<and> installEntriesOf (newCalls world0
        (snd (provisionCallback failedClusterManager ''r1'' ''o1'' ''c1'' (Some provisioned1)
                None world0)))
       = [provisionInstallRequest ''r1'' ''o1'' ''c1'' provisioned1]
   \<and> sentToInstaller (newCalls world0
        (snd (provisionCallback failedClusterManager ''r1'' ''o1'' ''c1'' (Some provisioned1)
                None world0))) = []
   \<and> monitorsOf (newCalls world0
        (snd (provisionCallback failedClusterManager ''r1'' ''o1'' ''c1'' (Some provisioned1)
                None world0))) = []
   \<and> take 1 (newCalls world0
        (snd (provisionCallback reliableManager ''r1'' ''o1'' ''c1''
                (Some (provisioned1\<lparr>pcr_State := ProvisionProgress_ERROR\<rparr>)) None world0)))
       = [Call_UpdateCluster (stateUpdateRequest ''o1'' ''c1'' ClusterState_FAILURE)]
   \<and> installRequestsOf (newCalls world0
        (snd (provisionCallback reliableManager ''r1'' ''o1'' ''c1''
                (Some (provisioned1\<lparr>pcr_State := ProvisionProgress_ERROR\<rparr>)) None world0)))
       = []"
  using C2_provision_completion [where w = world0 and m = reliableManager and rid = "''r1''"
      and org = "''o1''" and cid = "''c1''" and lr = provisioned1 and err = None
      and discovered = "discovered1\<lparr>ec_Hostname := ''c1.example.org''\<rparr>"]
    C2_provision_completion [where w = world0 and m = failedClusterManager
      and rid = "''r1''" and org = "''o1''" and cid = "''c1''" and lr = provisioned1
      and err = None and discovered = "discovered1\<lparr>ec_Hostname := ''c1.example.org''\<rparr>"]
    C2_provision_completion [where w = world0 and m = reliableManager and rid = "''r1''"
      and org = "''o1''" and cid = "''c1''"
      and lr = "provisioned1\<lparr>pcr_State := ProvisionProgress_ERROR\<rparr>" and err = None]
  by (simp add: Let_def updateClusterState_def discoverCluster_def discoveredOk_def
      getOrCreateProvisionedCluster_def getCluster_def record_call_def
      reliableManager_def failedClusterManager_def provisioned1_def world0_def cluster1_def
      discovered1_def provisionInstallRequest_def)

text \<open>
  C8. Every install request the provision callback issues, whether on entering
  \<^verbatim>\<open>InstallCluster\<close> or on the call to the installer, has Azure as its target platform.
  The callback receives the provisioner's response, not the provision request, so the
  platform that was asked for plays no part.
\<close>

theorem C8_install_platform_azure:
  "\<forall>q\<in>set (installRequestsOf
       (newCalls w (snd (provisionCallback m rid org cid lastResponse err w)))).
     ir_TargetPlatform q = Platform_AZURE"
proof -
  obtain r w' where run: "provisionCallback m rid org cid lastResponse err w = (r, w')"
    by (cases "provisionCallback m rid org cid lastResponse err w")
  from provisionCallback_ext [OF run] show ?thesis
    by (auto simp: run)
qed

theorem C8_install_platform_azure_witness:
  "installRequestsOf
     (newCalls world0
        (snd (provisionCallback reliableManager ''r1'' ''o1'' ''c1'' (Some provisioned1)
                None world0)))
     = [provisionInstallRequest ''r1'' ''o1'' ''c1'' provisioned1,
        provisionInstallRequest ''r1'' ''o1'' ''c1'' provisioned1]
   \<and> map ir_TargetPlatform
        (installRequestsOf
           (newCalls world0
              (snd (provisionCallback reliableManager ''r1'' ''o1'' ''c1'' (Some provisioned1)
                      None world0))))
       = [Platform_AZURE, Platform_AZURE]"
proof -
  have run: "installRequestsOf
     (newCalls world0
        (snd (provisionCallback reliableManager ''r1'' ''o1'' ''c1'' (Some provisioned1)
                None world0)))
     = [provisionInstallRequest ''r1'' ''o1'' ''c1'' provisioned1,
        provisionInstallRequest ''r1'' ''o1'' ''c1'' provisioned1]"
    by (simp add: manager_defs run_defs provisionInstallRequest_def)
  with C8_install_platform_azure [where w = world0 and m = reliableManager
      and rid = "''r1''" and org = "''o1''" and cid = "''c1''"
      and lastResponse = "Some provisioned1" and err = None]
  show ?thesis by simp
qed

section \<open>Uninstall: what is proved\<close>

text \<open>
  C5. When the registry returns the cluster and the application inventory returns the
  instances: if a service instance is deployed on the cluster or the connectivity status is
  not \<^verbatim>\<open>ONLINE_CORDON\<close>, \<^verbatim>\<open>Uninstall\<close> returns a failed-precondition error after these two
  reads and nothing else, with no line logged. If neither is the case the request is
  accepted, whatever the lifecycle state of the cluster: the check passes, the next call
  writes \<^verbatim>\<open>UNINSTALLING\<close>, and then \<^verbatim>\<open>Uninstall\<close> returns the error of that state update if
  it failed, the installer's response after launching the monitor if the installer
  accepted the request, and the installer's error after writing \<^verbatim>\<open>FAILURE\<close> if it did not.
\<close>

theorem C5_uninstall_preconditions:
  assumes get: "clusterClient_GetCluster m (calls w)
             \<lparr>cid_OrganizationId = ur_OrganizationId request,
              cid_ClusterId = ur_ClusterId request\<rparr> = Inr cluster"
    and apps: "appClient_ListAppInstances m
           (calls w @ [Call_GetCluster \<lparr>cid_OrganizationId = ur_OrganizationId request,
                                       cid_ClusterId = ur_ClusterId request\<rparr>])
           (ur_OrganizationId request) = Inr instances"
  shows "(let org = ur_OrganizationId request; cid = ur_ClusterId request;
              reads = [Call_GetCluster \<lparr>cid_OrganizationId = org, cid_ClusterId = cid\<rparr>,
                       Call_ListAppInstances org];
              hasApps = serviceDeployedOn org cid instances;
              run = Uninstall m request token w;
              checked = record_call (Call_ListAppInstances org)
                          (record_call
                             (Call_GetCluster \<lparr>cid_OrganizationId = org, cid_ClusterId = cid\<rparr>)
                             w);
              upd = updateClusterState m org cid ClusterState_UNINSTALLING checked
          in (hasApps \<or> c_ClusterStatus cluster \<noteq> ClusterStatus_ONLINE_CORDON
                \<longrightarrow> isFailedPrecondition (fst run) \<and> newCalls w (snd run) = reads
                    \<and> logs (snd run) = logs w)
           \<and> (\<not> hasApps \<and> c_ClusterStatus cluster = ClusterStatus_ONLINE_CORDON
                \<longrightarrow> fst (canUninstallCluster m org cid w) = None
                    \<and> take 3 (newCalls w (snd run))
                        = reads @ [Call_UpdateCluster
                                     (stateUpdateRequest org cid ClusterState_UNINSTALLING)]
                    \<and> (case fst upd of
                         Some e \<Rightarrow> fst run = Inl e \<and> snd run = snd upd
                       | None \<Rightarrow>
                           (case installerClient_UninstallCluster m (calls (snd upd)) request of
                              Inr response \<Rightarrow>
                                fst run = Inr response
                                \<and> newCalls (snd upd) (snd run)
                                    = [Call_UninstallCluster request,
                                       Launch_InstallerMonitor
                                         \<lparr>im_clusterID = cid, im_response = response,
                                          im_callback = Some Manager_uninstallCallback,
                                          im_decommissionCallback = token\<rparr>]
                                \<and> logs (snd run) = logs (snd upd)
                            | Inl uErr \<Rightarrow>
                                fst run = Inl uErr
                                \<and> take 2 (newCalls (snd upd) (snd run))
                                    = [Call_UninstallCluster request,
                                       Call_UpdateCluster
                                         (stateUpdateRequest org cid ClusterState_FAILURE)]))))"
proof -
  note can = canUninstallCluster_reads [OF get apps]
  let ?org = "ur_OrganizationId request" and ?cid = "ur_ClusterId request"
  let ?reads = "[Call_GetCluster \<lparr>cid_OrganizationId = ?org, cid_ClusterId = ?cid\<rparr>,
                 Call_ListAppInstances ?org]"
  let ?run = "Uninstall m request token w"
  let ?w1 = "record_call (Call_ListAppInstances ?org)
      (record_call (Call_GetCluster \<lparr>cid_OrganizationId = ?org, cid_ClusterId = ?cid\<rparr>) w)"
  obtain e2 w2
    where u: "updateClusterState m ?org ?cid ClusterState_UNINSTALLING ?w1 = (e2, w2)"
    by (cases "updateClusterState m ?org ?cid ClusterState_UNINSTALLING ?w1")
  have reject: "isFailedPrecondition (fst ?run) \<and> newCalls w (snd ?run) = ?reads
      \<and> logs (snd ?run) = logs w"
    if "serviceDeployedOn ?org ?cid instances
        \<or> c_ClusterStatus cluster \<noteq> ClusterStatus_ONLINE_CORDON"
    using that
    by (auto simp: Uninstall_def can isFailedPrecondition_def NewFailedPreconditionError_def)
  have accept: "fst (canUninstallCluster m ?org ?cid w) = None
      \<and> take 3 (newCalls w (snd ?run))
          = ?reads @ [Call_UpdateCluster (stateUpdateRequest ?org ?cid ClusterState_UNINSTALLING)]"
    if "\<not> serviceDeployedOn ?org ?cid instances"
      and "c_ClusterStatus cluster = ClusterStatus_ONLINE_CORDON"
  proof -
    from updateClusterState_ext [OF u] obtain xs
      where xs: "calls w2 = calls ?w1 @ Call_UpdateCluster
                   (stateUpdateRequest ?org ?cid ClusterState_UNINSTALLING) # xs"
      by blast
    obtain res w' where r: "?run = (res, w')" by (cases ?run)
    with that u have "\<exists>ys. calls w' = calls w2 @ ys"
      by (auto simp: Uninstall_def can Let_def
          split: option.splits sum.splits prod.splits dest!: updateClusterState_ext)
    then obtain ys where "calls w' = calls w2 @ ys" ..
    with xs r that show ?thesis
      by (simp add: can newCalls_def)
  qed
  have result: "case e2 of
         Some e \<Rightarrow> fst ?run = Inl e \<and> snd ?run = w2
       | None \<Rightarrow>
           (case installerClient_UninstallCluster m (calls w2) request of
              Inr response \<Rightarrow>
                fst ?run = Inr response
                \<and> newCalls w2 (snd ?run)
                    = [Call_UninstallCluster request,
                       Launch_InstallerMonitor
                         \<lparr>im_clusterID = ?cid, im_response = response,
                          im_callback = Some Manager_uninstallCallback,
                          im_decommissionCallback = token\<rparr>]
                \<and> logs (snd ?run) = logs w2
            | Inl uErr \<Rightarrow>
                fst ?run = Inl uErr
                \<and> take 2 (newCalls w2 (snd ?run))
                    = [Call_UninstallCluster request,
                       Call_UpdateCluster (stateUpdateRequest ?org ?cid ClusterState_FAILURE)])"
    if "\<not> serviceDeployedOn ?org ?cid instances"
      and "c_ClusterStatus cluster = ClusterStatus_ONLINE_CORDON"
  proof (cases e2)
    case (Some e)
    with that u show ?thesis
      by (simp add: Uninstall_def can)
  next
    case None
    show ?thesis
    proof (cases "installerClient_UninstallCluster m (calls w2) request")
      case (Inr response)
      with None that u show ?thesis
        by (simp add: Uninstall_def can Let_def)
    next
      case (Inl uErr)
      let ?w3 = "record_call (Call_UninstallCluster request) w2"
      obtain e4 w4
        where f: "updateClusterState m ?org ?cid ClusterState_FAILURE ?w3 = (e4, w4)"
        by (cases "updateClusterState m ?org ?cid ClusterState_FAILURE ?w3")
      from updateClusterState_ext [OF f] obtain zs
        where "calls w4 = calls ?w3 @ Call_UpdateCluster
                 (stateUpdateRequest ?org ?cid ClusterState_FAILURE) # zs"
        by blast
      with None Inl that u f show ?thesis
        by (simp add: Uninstall_def can Let_def newCalls_def split: option.splits)
    qed
  qed
  have eqs: "fst (updateClusterState m ?org ?cid ClusterState_UNINSTALLING ?w1) = e2"
    "snd (updateClusterState m ?org ?cid ClusterState_UNINSTALLING ?w1) = w2"
    by (simp_all add: u)
  show ?thesis
    unfolding Let_def eqs
    apply (intro conjI)
    subgoal using reject by blast
    subgoal using accept result by blast
    done
qed

theorem C5_uninstall_preconditions_witness:
  "c_ClusterStatus (cluster1\<lparr>c_ClusterStatus := ClusterStatus_other 0\<rparr>)
       \<noteq> ClusterStatus_ONLINE_CORDON
   \<and> isFailedPrecondition (fst (Uninstall uncordonedManager uninstallOnAzure None world0))
   \<and> newCalls world0 (snd (Uninstall uncordonedManager uninstallOnAzure None world0))
       = [Call_GetCluster \<lparr>cid_OrganizationId = ''o1'', cid_ClusterId = ''c1''\<rparr>,
          Call_ListAppInstances ''o1'']
   \<and> \<not> serviceDeployedOn ''o1'' ''c1'' \<lparr>ail_Instances = []\<rparr>
   \<and> c_State (cluster1\<lparr>c_State := ClusterState_FAILURE\<rparr>) = ClusterState_FAILURE
   \<and> fst (canUninstallCluster failedClusterManager ''o1'' ''c1'' world0) = None
   \<and> take 3 (newCalls world0 (snd (Uninstall failedClusterManager uninstallOnAzure None world0)))
       = [Call_GetCluster \<lparr>cid_OrganizationId = ''o1'', cid_ClusterId = ''c1''\<rparr>,
          Call_ListAppInstances ''o1'',
          Call_UpdateCluster (stateUpdateRequest ''o1'' ''c1'' ClusterState_UNINSTALLING)]
   \<and> fst (Uninstall failedClusterManager uninstallOnAzure None world0) = Inr response1"
  using C5_uninstall_preconditions [where m = uncordonedManager and w = world0
      and request = uninstallOnAzure
      and cluster = "cluster1\<lparr>c_ClusterStatus := ClusterStatus_other 0\<rparr>"
      and instances = "\<lparr>ail_Instances = []\<rparr>" and token = None]
    C5_uninstall_preconditions [where m = failedClusterManager and w = world0
      and request = uninstallOnAzure
      and cluster = "cluster1\<lparr>c_State := ClusterState_FAILURE\<rparr>"
      and instances = "\<lparr>ail_Instances = []\<rparr>" and token = None]
  by (simp add: Let_def uncordonedManager_def failedClusterManager_def reliableManager_def
      uninstallOnAzure_def serviceDeployedOn_def cluster1_def updateClusterState_def)

text \<open>
  C4. The uninstall callback does not do for the nodes what the claim says: for a cluster
  that has a node, and a final response that reports success, it writes the cluster's
  state and publishes it, and makes no call on the node. The install callback, on the
  same input, does update the node.
\<close>

theorem C4_uninstall_callback_skips_nodes:
  "nodesClient_ListNodes reliableManager (calls world0)
       \<lparr>cid_OrganizationId = ''o1'', cid_ClusterId = ''c1''\<rparr> = Inr [node1]
   \<and> newCalls world0
        (uninstallCallback reliableManager ''r1'' ''o1'' ''c1'' (Some response1) None world0)
       = [Call_UpdateCluster (stateUpdateRequest ''o1'' ''c1'' ClusterState_PROVISIONED),
          Call_SendEvents (stateUpdateRequest ''o1'' ''c1'' ClusterState_PROVISIONED)]
   \<and> \<not> list_ex isNodeWrite
        (newCalls world0
           (uninstallCallback reliableManager ''r1'' ''o1'' ''c1'' (Some response1) None
              world0))
   \<and> list_ex isNodeWrite
        (newCalls world0
           (installCallback reliableManager ''r1'' ''o1'' ''c1'' (Some response1) None world0))"
  by (simp add: manager_defs run_defs)

theorem C4_uninstall_callback_skips_nodes_witness:
  "map isNodeWrite
     (newCalls world0
        (uninstallCallback reliableManager ''r1'' ''o1'' ''c1'' (Some response1) None world0))
     = [False, False]"
  using C4_uninstall_callback_skips_nodes by simp

text \<open>
  What else the uninstall completion does. Given a final response, the uninstall callback
  writes the cluster's state, \<^verbatim>\<open>PROVISIONED\<close> on success and \<^verbatim>\<open>FAILURE\<close> on a watch error
  or a failed operation, and publishes it exactly when the write succeeded. An
  \<^verbatim>\<open>Uninstall\<close> that succeeds has launched, as its last call, a monitor with the uninstall
  callback and the decommission callback it was given. When such a monitor completes, in
  the model of the monitor that follows the spec, the decommission request is sent exactly
  once if a decommission chain token was supplied, and not at all otherwise.
\<close>

lemma uninstall_completion_callbacks:
  "(let w' = uninstallCallback m rid org cid (Some resp) err w;
        req = stateUpdateRequest org cid
                (if err \<noteq> None \<or> op_Status resp = OpStatus_FAILED
                 then ClusterState_FAILURE else ClusterState_PROVISIONED)
    in newCalls w w'
         = Call_UpdateCluster req #
             (case clusterClient_UpdateCluster m (calls w) req of
                Inl e \<Rightarrow> [] | Inr c \<Rightarrow> [Call_SendEvents req])
       \<and> \<not> list_ex isNodeWrite (newCalls w w'))
   \<and> (fst (Uninstall m request token w) = Inr response
        \<longrightarrow> last (calls (snd (Uninstall m request token w)))
            = Launch_InstallerMonitor
                \<lparr>im_clusterID = ur_ClusterId request, im_response = response,
                 im_callback = Some Manager_uninstallCallback,
                 im_decommissionCallback = token\<rparr>)
   \<and> decommissionsOf
        (newCalls w (InstallerMonitor_complete m
           \<lparr>im_clusterID = cid, im_response = response,
            im_callback = Some Manager_uninstallCallback,
            im_decommissionCallback = token\<rparr> final err w))
       = (case token of None \<Rightarrow> [] | Some t \<Rightarrow> [dc_Request t])"
proof (intro conjI)
  show "let w' = uninstallCallback m rid org cid (Some resp) err w;
        req = stateUpdateRequest org cid
                (if err \<noteq> None \<or> op_Status resp = OpStatus_FAILED
                 then ClusterState_FAILURE else ClusterState_PROVISIONED)
    in newCalls w w'
         = Call_UpdateCluster req #
             (case clusterClient_UpdateCluster m (calls w) req of
                Inl e \<Rightarrow> [] | Inr c \<Rightarrow> [Call_SendEvents req])
       \<and> \<not> list_ex isNodeWrite (newCalls w w')"
    by (simp add: newCalls_def uninstallCallback_calls Let_def split: sum.splits)
next
  show "fst (Uninstall m request token w) = Inr response
        \<longrightarrow> last (calls (snd (Uninstall m request token w)))
            = Launch_InstallerMonitor
                \<lparr>im_clusterID = ur_ClusterId request, im_response = response,
                 im_callback = Some Manager_uninstallCallback,
                 im_decommissionCallback = token\<rparr>"
    by (auto simp: Uninstall_def Let_def split: option.splits sum.splits prod.splits)
next
  have cb: "\<exists>xs. calls (uninstallCallback m a b c final err w) = calls w @ xs
              \<and> decommissionsOf xs = []" for a b c
  proof (cases final)
    case None
    then show ?thesis by (simp add: uninstallCallback_def)
  next
    case (Some resp')
    then show ?thesis by (simp add: uninstallCallback_calls Let_def split: sum.splits)
  qed
  show "decommissionsOf
        (newCalls w (InstallerMonitor_complete m
           \<lparr>im_clusterID = cid, im_response = response,
            im_callback = Some Manager_uninstallCallback,
            im_decommissionCallback = token\<rparr> final err w))
       = (case token of None \<Rightarrow> [] | Some t \<Rightarrow> [dc_Request t])"
  proof -
    from cb obtain xs
      where xs: "calls (uninstallCallback m (op_RequestId response)
                   (op_OrganizationId response) cid final err w) = calls w @ xs"
        and none: "decommissionsOf xs = []"
      by blast
    show ?thesis
      by (cases token)
        (simp_all add: InstallerMonitor_complete_def invokeCallback_def
          invokeDecommissionCallback_def Decommission_calls xs none newCalls_def
          split: DecommissionFunc.splits option.splits)
  qed
qed

lemma uninstall_completion_callbacks_example:
  "fst (Uninstall reliableManager uninstallOnAzure (Some token1) world0) = Inr response1
   \<and> last (calls (snd (Uninstall reliableManager uninstallOnAzure (Some token1) world0)))
       = Launch_InstallerMonitor
           \<lparr>im_clusterID = ''c1'', im_response = response1,
            im_callback = Some Manager_uninstallCallback,
            im_decommissionCallback = Some token1\<rparr>
   \<and> decommissionsOf
        (newCalls world0 (InstallerMonitor_complete reliableManager
           \<lparr>im_clusterID = ''c1'', im_response = response1,
            im_callback = Some Manager_uninstallCallback,
            im_decommissionCallback = Some token1\<rparr> (Some response1) None world0))
       = [dc_Request token1]
   \<and> decommissionsOf
        (newCalls world0 (InstallerMonitor_complete reliableManager
           \<lparr>im_clusterID = ''c1'', im_response = response1,
            im_callback = Some Manager_uninstallCallback,
            im_decommissionCallback = None\<rparr> (Some response1) None world0))
       = []"
proof -
  have ok: "fst (Uninstall reliableManager uninstallOnAzure (Some token1) world0)
      = Inr response1"
    by (simp add: manager_defs run_defs uninstallOnAzure_def)
  with uninstall_completion_callbacks [where m = reliableManager and rid = "''r1''"
      and org = "''o1''" and cid = "''c1''" and resp = response1 and err = None
      and w = world0 and request = uninstallOnAzure and token = "Some token1"
      and response = response1 and final = "Some response1"]
    uninstall_completion_callbacks [where m = reliableManager and rid = "''r1''"
      and org = "''o1''" and cid = "''c1''" and resp = response1 and err = None
      and w = world0 and request = uninstallOnAzure and token = None
      and response = response1 and final = "Some response1"]
  show ?thesis
    by (simp add: Let_def uninstallOnAzure_def)
qed

end
